theory Spec2Isabelle
  imports Complex_Main
begin

section \<open>The MCP client of \<open>mcp-client-python/client.py\<close>\<close>

text \<open>
  The client connects to one tool server (\<open>MCPClient.connect\<close>) and answers a user query
  by calling a language model and the server's tools (\<open>MCPClient.process_query\<close>).
  Both methods talk to collaborators that are not part of the repository: the MCP
  session, the standard-stream transport and the model API. The embedding takes them as
  a record of functions (the \<open>world\<close>), each of which may fail; the methods become pure
  functions of the world and of the client state, with Python exceptions as \<open>Inl\<close>.
\<close>

subsection \<open>Exceptions\<close>

datatype error =
    ValueError string
  | ValidationError
  | AttributeError
  | IndexError
  | CollaboratorError string

text \<open>
  \<open>ValueError\<close> carries its message. \<open>ValidationError\<close> is what the constructor of
  \<open>StdioServerParameters\<close> raises on a field of the wrong type. \<open>AttributeError\<close> is
  what reading a missing attribute raises, \<open>IndexError\<close> what \<open>content[0]\<close> raises on an
  empty list. \<open>CollaboratorError\<close> stands for whatever an external call raises.
\<close>

subsection \<open>Data\<close>

text \<open>
  A content block of a model response. The code reads the attributes \<open>type\<close>, \<open>text\<close>,
  \<open>name\<close> and \<open>input\<close> of whatever object the API client returns and asks
  \<open>hasattr(content, 'text')\<close>, so a block is a record of optional attributes:
  \<open>None\<close> is an attribute the object does not have. \<open>'a\<close> is the type of JSON objects
  (a tool's input, a tool's input schema).
\<close>

record 'a block =
  b_type :: string
  b_text :: "string option"
  b_name :: "string option"
  b_input :: "'a option"

text \<open>
  The blocks the API client library produces: exactly the blocks of type \<open>text\<close>
  have a \<open>text\<close> attribute, and a block of type \<open>tool_use\<close> has a \<open>name\<close> and an
  \<open>input\<close>.
\<close>

definition sdk_block :: "'a block \<Rightarrow> bool" where
  "sdk_block b =
     (((b_type b = ''text'') = (b_text b \<noteq> None)) \<and>
      (if b_type b = ''tool_use'' then b_name b \<noteq> None \<and> b_input b \<noteq> None else True))"

text \<open>The result of \<open>call_tool\<close>: the code reads its \<open>content\<close> attribute only.\<close>

record 'r tool_result =
  tr_content :: 'r
  tr_isError :: bool

text \<open>
  The content of a message of the history is the query or a block's text (a string), or
  the content of a tool result.
\<close>

datatype 'r msg_content = Str string | ToolPayload 'r

record 'r message =
  msg_role :: string
  msg_content :: "'r msg_content"

text \<open>A tool as the session lists it, and as it is declared to the model.\<close>

record 'a tool =
  t_name :: string
  t_description :: string
  t_inputSchema :: 'a

record 'a tool_decl =
  d_name :: string
  d_description :: string
  d_input_schema :: 'a

text \<open>
  The keyword arguments of \<open>anthropic.messages.create\<close>; \<open>None\<close> is an argument the
  call does not pass.
\<close>

record ('a, 'r) request =
  req_model :: string
  req_max_tokens :: nat
  req_messages :: "'r message list"
  req_tools :: "'a tool_decl list option"
  req_system :: "string option"

text \<open>
  Values of the server configuration, as \<open>json.load\<close> produces them. A number
  written without fraction and exponent is an \<open>int\<close>, any other a \<open>float\<close>;
  \<open>JFloat\<close> is a finite float by its value, \<open>JNonFinite\<close> one of \<open>NaN\<close>, \<open>Infinity\<close>
  and \<open>-Infinity\<close>, which \<open>json.load\<close> accepts.
\<close>

datatype json =
    JNull
  | JBool bool
  | JNum int
  | JFloat real
  | JNonFinite
  | JStr string
  | JArr "json list"
  | JObj "(string \<times> json) list"

text \<open>Python's truth value of such a value (\<open>not command\<close>).\<close>

fun truthy :: "json \<Rightarrow> bool" where
  "truthy JNull = False"
| "truthy (JBool b) = b"
| "truthy (JNum n) = (n \<noteq> 0)"
| "truthy (JFloat x) = (x \<noteq> 0)"
| "truthy JNonFinite = True"
| "truthy (JStr s) = (s \<noteq> [])"
| "truthy (JArr xs) = (xs \<noteq> [])"
| "truthy (JObj kvs) = (kvs \<noteq> [])"

text \<open>
  Modelled from the spec: the class \<open>StdioServerParameters\<close> that line 53 builds
  (\<open>StdioServerParameters(command=command, args=args, env=env)\<close>) belongs to the MCP
  library and is not part of the repository. It validates its fields when it is built.
  The types of the fields are those of section 6 of the specification: \<open>command\<close> a
  string, \<open>args\<close> a sequence of strings, \<open>env\<close> a mapping of strings to strings; the
  library also takes \<open>None\<close> for \<open>env\<close>. A value of another type raises
  \<open>ValidationError\<close>, before any collaborator is called.
\<close>

record server_params =
  sp_command :: string
  sp_args :: "string list"
  sp_env :: "(string \<times> string) list option"

fun strings_of :: "json list \<Rightarrow> string list option" where
  "strings_of [] = Some []"
| "strings_of (JStr s # vs) =
     (case strings_of vs of None \<Rightarrow> None | Some ss \<Rightarrow> Some (s # ss))"
| "strings_of (v # vs) = None"

fun string_map_of :: "(string \<times> json) list \<Rightarrow> (string \<times> string) list option" where
  "string_map_of [] = Some []"
| "string_map_of ((k, JStr s) # kvs) =
     (case string_map_of kvs of None \<Rightarrow> None | Some m \<Rightarrow> Some ((k, s) # m))"
| "string_map_of (kv # kvs) = None"

definition StdioServerParameters :: "json \<Rightarrow> json \<Rightarrow> json \<Rightarrow> error + server_params" where
  "StdioServerParameters command args env =
     (case command of
        JStr c \<Rightarrow>
          (case args of
             JArr vs \<Rightarrow>
               (case strings_of vs of
                  None \<Rightarrow> Inl ValidationError
                | Some ss \<Rightarrow>
                    (case env of
                       JNull \<Rightarrow> Inr \<lparr>sp_command = c, sp_args = ss, sp_env = None\<rparr>
                     | JObj kvs \<Rightarrow>
                         (case string_map_of kvs of
                            None \<Rightarrow> Inl ValidationError
                          | Some m \<Rightarrow> Inr \<lparr>sp_command = c, sp_args = ss, sp_env = Some m\<rparr>)
                     | _ \<Rightarrow> Inl ValidationError))
           | _ \<Rightarrow> Inl ValidationError)
      | _ \<Rightarrow> Inl ValidationError)"

subsection \<open>The collaborators\<close>

text \<open>
  \<open>'s\<close> is the type of sessions, \<open>'t\<close> of transports (the pair \<open>stdio, write\<close>).
  \<open>messages_create\<close> returns the \<open>content\<close> of the response, the only part the code
  reads. The model and the tools may answer differently each time they are called: the
  first argument of \<open>messages_create\<close> is the number of model calls made before in this
  query, that of \<open>call_tool\<close> the number of tool calls made before. \<open>str_args\<close> is
  Python's \<open>str\<close> of a tool input, used by the f-string of the progress line.
\<close>

record ('a, 'r, 's, 't) world =
  stdio_client :: "server_params \<Rightarrow> error + 't"
  client_session :: "'t \<Rightarrow> error + 's"
  initialize :: "'s \<Rightarrow> error + unit"
  list_tools :: "'s \<Rightarrow> error + 'a tool list"
  call_tool :: "nat \<Rightarrow> 's \<Rightarrow> string \<Rightarrow> 'a \<Rightarrow> error + 'r tool_result"
  messages_create :: "nat \<Rightarrow> ('a, 'r) request \<Rightarrow> error + 'a block list"
  str_args :: "'a \<Rightarrow> string"

subsection \<open>The client\<close>

text \<open>
  \<open>__init__\<close> sets \<open>session\<close> to \<open>None\<close> and creates an empty exit stack; \<open>connect\<close>
  sets \<open>stdio\<close>, \<open>write\<close> (here one transport) and \<open>session\<close>, and enters two contexts.
\<close>

datatype ('s, 't) resource = TransportCtx 't | SessionCtx 's

record ('s, 't) client =
  session :: "'s option"
  transport :: "'t option"
  exit_stack :: "('s, 't) resource list"

definition init_client :: "('s, 't) client" where
  "init_client = \<lparr>session = None, transport = None, exit_stack = []\<rparr>"

subsection \<open>\<open>connect\<close>\<close>

text \<open>
  \<open>server_config.get(k)\<close> is the lookup in a map; \<open>get(k, d)\<close> gives \<open>d\<close> for a
  missing key. The function returns the client as the call leaves it: an exception
  raised by the constructor of the parameters leaves it as it was, one raised after
  \<open>self.session\<close> was assigned leaves it assigned.
\<close>

definition connect ::
  "('a, 'r, 's, 't) world \<Rightarrow> ('s, 't) client \<Rightarrow> (string \<rightharpoonup> json) \<Rightarrow>
     (error + unit) \<times> ('s, 't) client" where
  "connect w self server_config =
     (let command = server_config ''command'' in
      if (case command of None \<Rightarrow> True | Some c \<Rightarrow> \<not> truthy c)
      then (Inl (ValueError (''Server configuration must include a 'command'' @ [CHR 0x27])), self)
      else
        (let args = (case server_config ''args'' of None \<Rightarrow> JArr [] | Some v \<Rightarrow> v);
             env = (case server_config ''env'' of None \<Rightarrow> JObj [] | Some v \<Rightarrow> v)
         in (case StdioServerParameters (the command) args env of
               Inl e \<Rightarrow> (Inl e, self)
             | Inr server_params \<Rightarrow>
         (case stdio_client w server_params of
               Inl e \<Rightarrow> (Inl e, self)
             | Inr tr \<Rightarrow>
                 (let self1 = self\<lparr>exit_stack := exit_stack self @ [TransportCtx tr],
                                    transport := Some tr\<rparr>
                  in (case client_session w tr of
                        Inl e \<Rightarrow> (Inl e, self1)
                      | Inr s \<Rightarrow>
                          (let self2 = self1\<lparr>exit_stack := exit_stack self1 @ [SessionCtx s],
                                              session := Some s\<rparr>
                           in (case initialize w s of
                                 Inl e \<Rightarrow> (Inl e, self2)
                               | Inr u \<Rightarrow>
                                   (case list_tools w s of
                                      Inl e \<Rightarrow> (Inl e, self2)
                                    | Inr tools \<Rightarrow> (Inr (), self2))))))))))"

subsection \<open>\<open>process_query\<close>\<close>

text \<open>The constant \<open>SYSTEM_PROMPT\<close> of the module; \<open>NL\<close> is the newline character.\<close>

definition NL :: string where
  "NL = [CHR 0x0A]"

definition SYSTEM_PROMPT :: string where
  "SYSTEM_PROMPT =
     ''You are an AI assistant that helps users by calling tools when necessary. '' @
     ''Use the tools provided to you to answer user queries effectively. Before '' @
     ''executing any SQL, remember that the schema is as follows:'' @
     NL @ NL @
     ''Based on the schema information provided, you have access to one table:'' @
     NL @ NL @
     ''## **CompanyFounding** (public schema)'' @
     NL @ NL @
     ''This table contains information about companies and has the following '' @
     ''columns:'' @
     NL @ NL @
     ''- **Symbol** (text, NOT NULL, Primary Key) - Company stock symbol'' @
     NL @
     ''- **Security** (text, nullable) - Security name/description'' @
     NL @
     ''- **GICS Sector** (text, nullable) - Global Industry Classification '' @
     ''Standard sector'' @
     NL @
     ''- **GICS Sub-Industry** (text, nullable) - GICS sub-industry classification'' @
     NL @
     ''- **Headquarters Location** (text, nullable) - Company headquarters location'' @
     NL @
     ''- **Date added** (text, nullable) - Date when the company was added'' @
     NL @
     ''- **CIK** (bigint, nullable) - Central Index Key (SEC identifier)'' @
     NL @
     ''- **Founded** (text, nullable) - Company founding date/yearWhen executing '' @
     ''SQL, remember that table and column names are case-sensitive. If using '' @
     ''Pinecone, do not use list-indexes tool; you know that the index name is '' @
     '''books' and namespace is 'namespace1'. For Semantic Search, use the tool '' @
     '''search-records' with the query parameter. If you don't know the answer, '' @
     ''use the tools to find out.''"

text \<open>Python's \<open>"\n".join(xs)\<close>.\<close>

fun join_nl :: "string list \<Rightarrow> string" where
  "join_nl [] = []"
| "join_nl [x] = x"
| "join_nl (x # y # ys) = x @ NL @ join_nl (y # ys)"

text \<open>
  What the method does to its collaborators and to the history, in the order it does
  it: the call of \<open>list_tools\<close>, each call of \<open>messages.create\<close> with its arguments and
  each response content that came back, each call of \<open>call_tool\<close> with the tool's name
  and input and each result that came back, and each \<open>messages.append\<close>.
\<close>

datatype ('a, 'r) event =
    ListTools
  | ModelCall "('a, 'r) request"
  | ModelReply "'a block list"
  | ToolCall string 'a
  | ToolReturn "'r tool_result"
  | MsgAppend "'r message"

text \<open>
  The local variables \<open>messages\<close> and \<open>final_text\<close> of the method, with the events so
  far.
\<close>

record ('a, 'r) pq_state =
  messages :: "'r message list"
  final_text :: "string list"
  trace :: "('a, 'r) event list"

definition log :: "('a, 'r) event \<Rightarrow> ('a, 'r) pq_state \<Rightarrow> ('a, 'r) pq_state" where
  "log e st = st\<lparr>trace := trace st @ [e]\<rparr>"

fun model_calls :: "('a, 'r) event list \<Rightarrow> ('a, 'r) request list" where
  "model_calls [] = []"
| "model_calls (ModelCall r # es) = r # model_calls es"
| "model_calls (e # es) = model_calls es"

fun model_replies :: "('a, 'r) event list \<Rightarrow> 'a block list list" where
  "model_replies [] = []"
| "model_replies (ModelReply bs # es) = bs # model_replies es"
| "model_replies (e # es) = model_replies es"

fun tool_calls :: "('a, 'r) event list \<Rightarrow> (string \<times> 'a) list" where
  "tool_calls [] = []"
| "tool_calls (ToolCall n a # es) = (n, a) # tool_calls es"
| "tool_calls (e # es) = tool_calls es"

fun appended :: "('a, 'r) event list \<Rightarrow> 'r message list" where
  "appended [] = []"
| "appended (MsgAppend m # es) = m # appended es"
| "appended (e # es) = appended es"

fun list_tools_calls :: "('a, 'r) event list \<Rightarrow> nat" where
  "list_tools_calls [] = 0"
| "list_tools_calls (ListTools # es) = Suc (list_tools_calls es)"
| "list_tools_calls (e # es) = list_tools_calls es"

text \<open>
  The arguments of the two calls of \<open>messages.create\<close>: the first (lines 84 to 89)
  passes \<open>tools\<close> and no \<open>system\<close>, the one in the loop (lines 119 to 124) passes
  \<open>system\<close> and no \<open>tools\<close>.
\<close>

definition first_request :: "'r message list \<Rightarrow> 'a tool_decl list \<Rightarrow> ('a, 'r) request" where
  "first_request msgs available_tools =
     \<lparr>req_model = ''claude-sonnet-4-0'', req_max_tokens = 10000, req_messages = msgs,
      req_tools = Some available_tools, req_system = None\<rparr>"

definition followup_request :: "'r message list \<Rightarrow> ('a, 'r) request" where
  "followup_request msgs =
     \<lparr>req_model = ''claude-sonnet-4-0'', req_max_tokens = 10000, req_messages = msgs,
      req_tools = None, req_system = Some SYSTEM_PROMPT\<rparr>"

text \<open>The list comprehension of lines 77 to 81.\<close>

definition available_tools_of :: "'a tool list \<Rightarrow> 'a tool_decl list" where
  "available_tools_of tools =
     map (\<lambda>tool. \<lparr>d_name = t_name tool, d_description = t_description tool,
                   d_input_schema = t_inputSchema tool\<rparr>) tools"

text \<open>The f-string of line 104.\<close>

definition calling_line :: "('a, 'r, 's, 't) world \<Rightarrow> string \<Rightarrow> 'a \<Rightarrow> string" where
  "calling_line w tool_name tool_args =
     ''[Calling tool '' @ tool_name @ '' with args '' @ str_args w tool_args @ '']''"

text \<open>\<open>messages.append(m)\<close>.\<close>

definition append_message :: "'r message \<Rightarrow> ('a, 'r) pq_state \<Rightarrow> ('a, 'r) pq_state" where
  "append_message m st = (log (MsgAppend m) st)\<lparr>messages := messages st @ [m]\<rparr>"

text \<open>\<open>hasattr(content, 'text') and content.text\<close>.\<close>

definition has_text :: "'a block \<Rightarrow> bool" where
  "has_text content = (case b_text content of None \<Rightarrow> False | Some t \<Rightarrow> t \<noteq> [])"

text \<open>
  \<open>response.content[0].text\<close> (line 126): the index raises on an empty list, the
  attribute on a block that has no \<open>text\<close>.
\<close>

definition first_block_text :: "'a block list \<Rightarrow> error + string" where
  "first_block_text response =
     (case response of
        [] \<Rightarrow> Inl IndexError
      | c0 # rest \<Rightarrow> (case b_text c0 of None \<Rightarrow> Inl AttributeError | Some t \<Rightarrow> Inr t))"

text \<open>
  The branch \<open>content.type == 'text'\<close> of the loop body (lines 95 to 97): the text is
  read and appended to \<open>final_text\<close>.
\<close>

definition text_branch ::
  "('a, 'r) pq_state \<Rightarrow> 'a block \<Rightarrow> (error \<times> ('a, 'r) pq_state) + ('a, 'r) pq_state" where
  "text_branch st content =
     (case b_text content of
        None \<Rightarrow> Inl (AttributeError, st)
      | Some t \<Rightarrow> Inr (st\<lparr>final_text := final_text st @ [t]\<rparr>))"

text \<open>
  The branch \<open>content.type == 'tool_use'\<close> (lines 98 to 126): the tool is called, the
  progress line is appended to \<open>final_text\<close>, the block's text (when the block has a
  non-empty one) and the content of the result are appended to the history, the model is
  called again with the system prompt and without \<open>tools\<close>, and the text of the first
  block of its response is appended to \<open>final_text\<close>.
\<close>

definition tool_use_branch ::
  "('a, 'r, 's, 't) world \<Rightarrow> 's \<Rightarrow> ('a, 'r) pq_state \<Rightarrow> 'a block \<Rightarrow>
     (error \<times> ('a, 'r) pq_state) + ('a, 'r) pq_state" where
  "tool_use_branch w sess st content =
     (case b_name content of
        None \<Rightarrow> Inl (AttributeError, st)
      | Some tool_name \<Rightarrow>
     (case b_input content of
        None \<Rightarrow> Inl (AttributeError, st)
      | Some tool_args \<Rightarrow>
     (let st1 = log (ToolCall tool_name tool_args) st in
      case call_tool w (length (tool_calls (trace st))) sess tool_name tool_args of
        Inl e \<Rightarrow> Inl (e, st1)
      | Inr result \<Rightarrow>
     (let st2 = (log (ToolReturn result) st1)
                  \<lparr>final_text := final_text st1 @ [calling_line w tool_name tool_args]\<rparr>;
          st3 = (if has_text content
                 then append_message
                        \<lparr>msg_role = ''assistant'', msg_content = Str (the (b_text content))\<rparr> st2
                 else st2);
          st4 = append_message
                  \<lparr>msg_role = ''user'', msg_content = ToolPayload (tr_content result)\<rparr> st3;
          req = followup_request (messages st4);
          st5 = log (ModelCall req) st4
      in case messages_create w (length (model_calls (trace st4))) req of
           Inl e \<Rightarrow> Inl (e, st5)
         | Inr response \<Rightarrow>
        (let st6 = log (ModelReply response) st5 in
         case first_block_text response of
           Inl e \<Rightarrow> Inl (e, st6)
         | Inr t \<Rightarrow> Inr (st6\<lparr>final_text := final_text st6 @ [t]\<rparr>))))))"

text \<open>The body of the \<open>for\<close> loop: a block of any other type is passed over.\<close>

definition loop_body ::
  "('a, 'r, 's, 't) world \<Rightarrow> 's \<Rightarrow> ('a, 'r) pq_state \<Rightarrow> 'a block \<Rightarrow>
     (error \<times> ('a, 'r) pq_state) + ('a, 'r) pq_state" where
  "loop_body w sess st content =
     (if b_type content = ''text'' then text_branch st content
      else if b_type content = ''tool_use'' then tool_use_branch w sess st content
      else Inr st)"

text \<open>
  \<open>for content in response.content\<close>: the list is the content of the response that
  \<open>response\<close> names when the loop starts. Python evaluates the iterable once, so
  assigning \<open>response\<close> in the body does not change what the loop ranges over.
\<close>

fun for_content ::
  "('a, 'r, 's, 't) world \<Rightarrow> 's \<Rightarrow> 'a block list \<Rightarrow> ('a, 'r) pq_state \<Rightarrow>
     (error \<times> ('a, 'r) pq_state) + ('a, 'r) pq_state" where
  "for_content w sess [] st = Inr st"
| "for_content w sess (c # cs) st =
     (case loop_body w sess st c of
        Inl x \<Rightarrow> Inl x
      | Inr st' \<Rightarrow> for_content w sess cs st')"

text \<open>
  The state the method starts in: the history holds the query (lines 69 to 74), and
  \<open>final_text\<close> is empty (line 92; nothing reads it before).
\<close>

definition initial_state :: "string \<Rightarrow> ('a, 'r) pq_state" where
  "initial_state query =
     \<lparr>messages = [\<lparr>msg_role = ''user'', msg_content = Str query\<rparr>],
      final_text = [], trace = []\<rparr>"

text \<open>
  The method. It returns the joined \<open>final_text\<close>, or the exception raised; either way
  the state reached is returned with it. With no session (\<open>self.session\<close> is \<open>None\<close>)
  the call of \<open>list_tools\<close> raises \<open>AttributeError\<close>. The \<open>print\<close> calls are left out:
  they read nothing that the lines around them do not read.
\<close>

definition process_query ::
  "('a, 'r, 's, 't) world \<Rightarrow> ('s, 't) client \<Rightarrow> string \<Rightarrow>
     (error \<times> ('a, 'r) pq_state) + (string \<times> ('a, 'r) pq_state)" where
  "process_query w self query =
     (let st0 = initial_state query
      in case session self of
           None \<Rightarrow> Inl (AttributeError, st0)
         | Some sess \<Rightarrow>
        (let st1 = log ListTools st0 in
         case list_tools w sess of
           Inl e \<Rightarrow> Inl (e, st1)
         | Inr tools \<Rightarrow>
        (let available_tools = available_tools_of tools;
             req = first_request (messages st1) available_tools;
             st2 = log (ModelCall req) st1
         in case messages_create w 0 req of
              Inl e \<Rightarrow> Inl (e, st2)
            | Inr response \<Rightarrow>
                (case for_content w sess response (log (ModelReply response) st2) of
                   Inl x \<Rightarrow> Inl x
                 | Inr st \<Rightarrow> Inr (join_nl (final_text st), st)))))"

text \<open>
  The state an outcome carries: of the loop, and of the method; and the string the method
  returned, if it returned, or the exception it raised.
\<close>

definition reached ::
  "(error \<times> ('a, 'r) pq_state) + ('a, 'r) pq_state \<Rightarrow> ('a, 'r) pq_state" where
  "reached r = (case r of Inl x \<Rightarrow> snd x | Inr st \<Rightarrow> st)"


definition final_state ::
  "(error \<times> ('a, 'r) pq_state) + (string \<times> ('a, 'r) pq_state) \<Rightarrow> ('a, 'r) pq_state" where
  "final_state r = (case r of Inl x \<Rightarrow> snd x | Inr y \<Rightarrow> snd y)"

definition answer ::
  "(error \<times> ('a, 'r) pq_state) + (string \<times> ('a, 'r) pq_state) \<Rightarrow> string option" where
  "answer r = (case r of Inl x \<Rightarrow> None | Inr y \<Rightarrow> Some (fst y))"

definition raised ::
  "(error \<times> ('a, 'r) pq_state) + (string \<times> ('a, 'r) pq_state) \<Rightarrow> error option" where
  "raised r = (case r of Inl x \<Rightarrow> Some (fst x) | Inr y \<Rightarrow> None)"


subsection \<open>The state in which the loop starts\<close>

text \<open>
  When the first response \<open>r0\<close> has come back, \<open>list_tools\<close> and the first model call
  are in the trace, the history holds the query and \<open>final_text\<close> is empty.
\<close>

definition loop_entry :: "string \<Rightarrow> 'a tool list \<Rightarrow> 'a block list \<Rightarrow> ('a, 'r) pq_state" where
  "loop_entry q tools r0 =
     log (ModelReply r0)
       (log (ModelCall (first_request [\<lparr>msg_role = ''user'', msg_content = Str q\<rparr>]
                          (available_tools_of tools)))
          (log ListTools (initial_state q)))"


subsection \<open>Example runs\<close>

text \<open>
  A text block and a tool-use block as the API client library builds them, and a world
  whose model answers the first call with one list of blocks and every later call with
  another; its only tool returns \<open>rows\<close>.
\<close>

definition text_block :: "string \<Rightarrow> string block" where
  "text_block t = \<lparr>b_type = ''text'', b_text = Some t, b_name = None, b_input = None\<rparr>"

definition tool_use_block :: "string \<Rightarrow> string \<Rightarrow> string block" where
  "tool_use_block n i =
     \<lparr>b_type = ''tool_use'', b_text = None, b_name = Some n, b_input = Some i\<rparr>"

definition scripted_world ::
  "string block list \<Rightarrow> string block list \<Rightarrow> (string, string, nat, nat) world" where
  "scripted_world first later =
     \<lparr>stdio_client = (\<lambda>p. Inr 0),
      client_session = (\<lambda>t. Inr 0),
      initialize = (\<lambda>s. Inr ()),
      list_tools = (\<lambda>s. Inr [\<lparr>t_name = ''query'', t_description = ''Run SQL'',
                                t_inputSchema = ''{}''\<rparr>]),
      call_tool = (\<lambda>n s name args. Inr \<lparr>tr_content = ''rows'', tr_isError = False\<rparr>),
      messages_create = (\<lambda>n req. if n = 0 then Inr first else Inr later),
      str_args = (\<lambda>a. a)\<rparr>"

definition connected_client :: "(nat, nat) client" where
  "connected_client =
     \<lparr>session = Some 0, transport = Some 0, exit_stack = [TransportCtx 0, SessionCtx 0]\<rparr>"

definition demo_world :: "(string, string, nat, nat) world" where
  "demo_world =
     scripted_world [text_block ''Looking.'', tool_use_block ''query'' ''{q}'']
                    [text_block ''Done.'', tool_use_block ''query'' ''{q2}'']"


text \<open>
  Further example worlds: one whose model answers with two text blocks; one whose
  follow-up response has two text blocks; one whose first response has a tool-use block
  of the library and one that also carries a text; one whose first response has two
  tool-use blocks and whose follow-up response holds another; one whose follow-up
  response starts with a tool-use block.
\<close>

definition text_only_world :: "(string, string, nat, nat) world" where
  "text_only_world = scripted_world [text_block ''Hello'', text_block ''World''] []"

definition two_texts_world :: "(string, string, nat, nat) world" where
  "two_texts_world =
     scripted_world [text_block ''Looking.'', tool_use_block ''query'' ''{q}'']
                    [text_block ''Done.'', text_block ''Bye.'']"

definition noted_world :: "(string, string, nat, nat) world" where
  "noted_world =
     scripted_world
       [tool_use_block ''query'' ''{q}'',
        \<lparr>b_type = ''tool_use'', b_text = Some ''note'', b_name = Some ''query'',
         b_input = Some ''{q2}''\<rparr>]
       [text_block ''ok'']"

definition two_calls_world :: "(string, string, nat, nat) world" where
  "two_calls_world =
     scripted_world [tool_use_block ''query'' ''{q}'', tool_use_block ''query'' ''{q2}'']
                    [text_block ''Done.'', tool_use_block ''query'' ''{q3}'']"

definition tool_again_world :: "(string, string, nat, nat) world" where
  "tool_again_world =
     scripted_world [tool_use_block ''query'' ''{q}''] [tool_use_block ''query'' ''{q2}'']"

subsection \<open>What the claims speak of\<close>

text \<open>The branch of the loop body a block takes is decided by its \<open>type\<close>.\<close>

definition is_tool_use :: "'a block \<Rightarrow> bool" where
  "is_tool_use b = (b_type b = ''tool_use'')"

text \<open>
  The messages one processed tool-use block adds to the history: the block's text as an
  assistant message when it has a non-empty one, then the content of the tool result as
  a user message.
\<close>

definition block_messages :: "'a block \<Rightarrow> 'r tool_result \<Rightarrow> 'r message list" where
  "block_messages c res =
     (if has_text c
      then [\<lparr>msg_role = ''assistant'', msg_content = Str (the (b_text c))\<rparr>]
      else []) @
     [\<lparr>msg_role = ''user'', msg_content = ToolPayload (tr_content res)\<rparr>]"

text \<open>The texts of the text blocks of a response, in order.\<close>

fun text_blocks :: "'a block list \<Rightarrow> string list" where
  "text_blocks [] = []"
| "text_blocks (b # bs) =
     (if b_type b = ''text''
      then (case b_text b of None \<Rightarrow> [] | Some t \<Rightarrow> [t]) @ text_blocks bs
      else text_blocks bs)"

text \<open>The tool calls the tool-use blocks of a response ask for, in order.\<close>

fun requested_calls :: "'a block list \<Rightarrow> (string \<times> 'a) list" where
  "requested_calls [] = []"
| "requested_calls (b # bs) =
     (if is_tool_use b
      then (case b_name b of
              None \<Rightarrow> []
            | Some n \<Rightarrow> (case b_input b of None \<Rightarrow> [] | Some a \<Rightarrow> [(n, a)])) @
           requested_calls bs
      else requested_calls bs)"

text \<open>
  The lines of the answer, given the first response and the responses to the follow-up
  calls: a text block gives its text; a tool-use block gives the progress line and then
  the text of the first block of the next follow-up response; any other block gives
  nothing.
\<close>

fun answer_lines ::
  "('a, 'r, 's, 't) world \<Rightarrow> 'a block list \<Rightarrow> 'a block list list \<Rightarrow> string list" where
  "answer_lines w [] rs = []"
| "answer_lines w (b # bs) rs =
     (if b_type b = ''text''
      then (case b_text b of None \<Rightarrow> [] | Some t \<Rightarrow> [t]) @ answer_lines w bs rs
      else if b_type b = ''tool_use''
      then (case rs of
              [] \<Rightarrow> []
            | r # rs' \<Rightarrow>
                (case b_name b of
                   None \<Rightarrow> []
                 | Some n \<Rightarrow>
                     (case b_input b of None \<Rightarrow> [] | Some a \<Rightarrow> [calling_line w n a])) @
                (case first_block_text r of Inl e \<Rightarrow> [] | Inr t \<Rightarrow> [t]) @
                answer_lines w bs rs')
      else answer_lines w bs rs)"

text \<open>
  The messages the tool-use blocks of a response add to the history when each is
  processed in turn, the \<open>k\<close>-th tool call of the query being the next: for each
  block the messages of \<open>block_messages\<close>, with the result the tool returns.
\<close>

fun tool_messages ::
  "('a, 'r, 's, 't) world \<Rightarrow> 's \<Rightarrow> nat \<Rightarrow> 'a block list \<Rightarrow> 'r message list" where
  "tool_messages w sess k [] = []"
| "tool_messages w sess k (c # cs) =
     (if is_tool_use c
      then (case b_name c of
              None \<Rightarrow> []
            | Some n \<Rightarrow>
                (case b_input c of
                   None \<Rightarrow> []
                 | Some a \<Rightarrow>
                     (case call_tool w k sess n a of
                        Inl e \<Rightarrow> []
                      | Inr res \<Rightarrow> block_messages c res @ tool_messages w sess (Suc k) cs)))
      else tool_messages w sess k cs)"

text \<open>
  Reading a trace for C2. \<open>follow\<close> reads the events that come after the first
  response against the tool-use blocks of that response, in order. For each block it
  asks for the call of the tool with the block's name and input, the result the tool
  returns, the messages of \<open>block_messages\<close> appended for that result, the model call
  with the history that ends with them, and the response. The verdict is \<open>Completed\<close>
  when all blocks were answered in this way and nothing else happened, \<open>Stopped\<close>
  when the events end early (a call raised, the response had no text to read, or an
  attribute was missing), and \<open>Refused\<close> otherwise: a block skipped, a second or a
  different message, a model call before the message.
\<close>

datatype verdict = Refused | Stopped | Completed

fun strip_prefix :: "'x list \<Rightarrow> 'x list \<Rightarrow> 'x list option" where
  "strip_prefix [] ys = Some ys"
| "strip_prefix (x # xs) [] = None"
| "strip_prefix (x # xs) (y # ys) = (if x = y then strip_prefix xs ys else None)"

fun follow ::
  "('a, 'r, 's, 't) world \<Rightarrow> 's \<Rightarrow> nat \<Rightarrow> 'a block list \<Rightarrow> 'r message list \<Rightarrow>
     ('a, 'r) event list \<Rightarrow> verdict" where
  "follow w sess k [] h es = (if es = [] then Completed else Refused)"
| "follow w sess k (c # cs) h [] = Stopped"
| "follow w sess k (c # cs) h (ToolCall n a # es) =
     (if b_name c = Some n \<and> b_input c = Some a
      then (case call_tool w k sess n a of
              Inl e \<Rightarrow> (if es = [] then Stopped else Refused)
            | Inr res \<Rightarrow>
                (case strip_prefix
                        (ToolReturn res # map MsgAppend (block_messages c res) @
                         [ModelCall (followup_request (h @ block_messages c res))]) es of
                   None \<Rightarrow> Refused
                 | Some rest \<Rightarrow>
                     (case rest of
                        [] \<Rightarrow> Stopped
                      | e # es' \<Rightarrow>
                          (case e of
                             ModelReply r \<Rightarrow>
                               (case first_block_text r of
                                  Inl x \<Rightarrow> (if es' = [] then Stopped else Refused)
                                | Inr t \<Rightarrow>
                                    follow w sess (Suc k) cs (h @ block_messages c res) es')
                           | _ \<Rightarrow> Refused))))
      else Refused)"
| "follow w sess k (c # cs) h (e # es) = Refused"



section \<open>Facts about the embedding\<close>

lemma reached_simps [simp]: "reached (Inl (e, st)) = st" "reached (Inr st) = st"
  by (simp_all add: reached_def)

lemma log_simps [simp]:
  "trace (log e st) = trace st @ [e]"
  "messages (log e st) = messages st"
  "final_text (log e st) = final_text st"
  by (simp_all add: log_def)

lemma append_message_simps [simp]:
  "trace (append_message m st) = trace st @ [MsgAppend m]"
  "messages (append_message m st) = messages st @ [m]"
  "final_text (append_message m st) = final_text st"
  by (simp_all add: append_message_def)

lemma initial_state_simps [simp]:
  "trace (initial_state q) = []"
  "messages (initial_state q) = [\<lparr>msg_role = ''user'', msg_content = Str q\<rparr>]"
  "final_text (initial_state q) = []"
  by (simp_all add: initial_state_def)

lemma model_calls_append [simp]: "model_calls (xs @ ys) = model_calls xs @ model_calls ys"
  by (induction xs rule: model_calls.induct) simp_all

lemma model_replies_append [simp]: "model_replies (xs @ ys) = model_replies xs @ model_replies ys"
  by (induction xs rule: model_replies.induct) simp_all

lemma tool_calls_append [simp]: "tool_calls (xs @ ys) = tool_calls xs @ tool_calls ys"
  by (induction xs rule: tool_calls.induct) simp_all

lemma appended_append [simp]: "appended (xs @ ys) = appended xs @ appended ys"
  by (induction xs rule: appended.induct) simp_all

lemma list_tools_calls_append [simp]:
  "list_tools_calls (xs @ ys) = list_tools_calls xs + list_tools_calls ys"
  by (induction xs rule: list_tools_calls.induct) simp_all

lemma for_content_invariant:
  assumes body: "\<And>st c. P st \<Longrightarrow> P (reached (loop_body w sess st c))"
  shows "P st \<Longrightarrow> P (reached (for_content w sess cs st))"
proof (induction cs arbitrary: st)
  case Nil
  then show ?case by simp
next
  case (Cons c cs)
  show ?case
  proof (cases "loop_body w sess st c")
    case (Inl x)
    with body [OF Cons.prems, of c] show ?thesis by (cases x) simp
  next
    case (Inr st')
    with body [OF Cons.prems, of c] have "P st'" by simp
    from Cons.IH [OF this] Inr show ?thesis by simp
  qed
qed

lemma loop_entry_simps [simp]:
  "trace (loop_entry q tools r0) =
     [ListTools,
      ModelCall (first_request [\<lparr>msg_role = ''user'', msg_content = Str q\<rparr>]
                   (available_tools_of tools)),
      ModelReply r0]"
  "messages (loop_entry q tools r0) = [\<lparr>msg_role = ''user'', msg_content = Str q\<rparr>]"
  "final_text (loop_entry q tools r0) = []"
  by (simp_all add: loop_entry_def)

text \<open>The ways the method can end.\<close>

lemma process_query_cases:
  obtains
    (no_session) "session self = None"
      "process_query w self q = Inl (AttributeError, initial_state q)"
  | (list_tools_raises) sess e where "session self = Some sess" "list_tools w sess = Inl e"
      "process_query w self q = Inl (e, log ListTools (initial_state q))"
  | (model_raises) sess tools e where "session self = Some sess" "list_tools w sess = Inr tools"
      "process_query w self q =
         Inl (e, log (ModelCall (first_request [\<lparr>msg_role = ''user'', msg_content = Str q\<rparr>]
                                   (available_tools_of tools)))
                   (log ListTools (initial_state q)))"
  | (loop) sess tools r0 where "session self = Some sess" "list_tools w sess = Inr tools"
      "messages_create w 0 (first_request [\<lparr>msg_role = ''user'', msg_content = Str q\<rparr>]
                              (available_tools_of tools)) = Inr r0"
      "process_query w self q =
         (case for_content w sess r0 (loop_entry q tools r0) of
            Inl x \<Rightarrow> Inl x
          | Inr st \<Rightarrow> Inr (join_nl (final_text st), st))"
      "final_state (process_query w self q) = reached (for_content w sess r0 (loop_entry q tools r0))"
proof (cases "session self")
  case None
  then show ?thesis using no_session by (simp add: process_query_def Let_def)
next
  case (Some sess)
  show ?thesis
  proof (cases "list_tools w sess")
    case (Inl e)
    with Some show ?thesis using list_tools_raises [of sess e]
      by (simp add: process_query_def Let_def)
  next
    case (Inr tools)
    show ?thesis
    proof (cases "messages_create w 0 (first_request [\<lparr>msg_role = ''user'', msg_content = Str q\<rparr>]
                              (available_tools_of tools))")
      case (Inl e)
      with Some Inr show ?thesis using model_raises [of sess tools e]
        by (simp add: process_query_def Let_def)
    next
      case r: (Inr r0)
      with Some Inr have pq: "process_query w self q =
         (case for_content w sess r0 (loop_entry q tools r0) of
            Inl x \<Rightarrow> Inl x
          | Inr st \<Rightarrow> Inr (join_nl (final_text st), st))"
        by (simp add: process_query_def Let_def loop_entry_def)
      then have "final_state (process_query w self q) =
          reached (for_content w sess r0 (loop_entry q tools r0))"
        by (simp add: final_state_def reached_def split: sum.splits)
      with pq Some Inr r show ?thesis using loop [of sess tools r0] by blast
    qed
  qed
qed

lemmas demo_defs = process_query_def for_content.simps loop_body_def text_branch_def tool_use_branch_def
  first_block_text_def
  scripted_world_def demo_world_def text_only_world_def two_texts_world_def noted_world_def
  tool_again_world_def two_calls_world_def connected_client_def text_block_def tool_use_block_def
  initial_state_def log_def append_message_def has_text_def final_state_def Let_def

lemma tool_use_branch_requests:
  "\<exists>suf. trace (reached (tool_use_branch w sess st c)) = trace st @ suf \<and>
     list_tools_calls suf = 0 \<and>
     (\<forall>r \<in> set (model_calls suf). req_system r = Some SYSTEM_PROMPT \<and> req_tools r = None)"
  by (simp add: tool_use_branch_def followup_request_def Let_def
           split: option.splits sum.splits)

lemma loop_body_requests:
  "\<exists>suf. trace (reached (loop_body w sess st c)) = trace st @ suf \<and>
     list_tools_calls suf = 0 \<and>
     (\<forall>r \<in> set (model_calls suf). req_system r = Some SYSTEM_PROMPT \<and> req_tools r = None)"
  using tool_use_branch_requests [of w sess st c]
  by (simp add: loop_body_def text_branch_def split: option.splits)

lemma for_content_requests:
  "\<exists>suf. trace (reached (for_content w sess cs st)) = trace st @ suf \<and>
     list_tools_calls suf = 0 \<and>
     (\<forall>r \<in> set (model_calls suf). req_system r = Some SYSTEM_PROMPT \<and> req_tools r = None)"
proof (induction cs arbitrary: st)
  case Nil
  show ?case by simp
next
  case (Cons c cs)
  obtain suf where suf: "trace (reached (loop_body w sess st c)) = trace st @ suf"
    "list_tools_calls suf = 0"
    "\<forall>r \<in> set (model_calls suf). req_system r = Some SYSTEM_PROMPT \<and> req_tools r = None"
    using loop_body_requests [of w sess st c] by blast
  show ?case
  proof (cases "loop_body w sess st c")
    case (Inl x)
    with suf show ?thesis by (cases x) auto
  next
    case (Inr st')
    obtain suf' where suf': "trace (reached (for_content w sess cs st')) = trace st' @ suf'"
      "list_tools_calls suf' = 0"
      "\<forall>r \<in> set (model_calls suf'). req_system r = Some SYSTEM_PROMPT \<and> req_tools r = None"
      using Cons.IH [of st'] by blast
    from suf suf' Inr have "trace (reached (for_content w sess (c # cs) st)) = trace st @ (suf @ suf')"
      by simp
    moreover from suf suf' have "list_tools_calls (suf @ suf') = 0" by simp
    moreover from suf suf' have "\<forall>r \<in> set (model_calls (suf @ suf')).
        req_system r = Some SYSTEM_PROMPT \<and> req_tools r = None" by auto
    ultimately show ?thesis by blast
  qed
qed



lemma for_content_outcome:
  assumes body: "\<And>st c. I st \<Longrightarrow>
     (case loop_body w sess st c of Inl x \<Rightarrow> F x | Inr st' \<Rightarrow> I st')"
  shows "I st \<Longrightarrow> (case for_content w sess cs st of Inl x \<Rightarrow> F x | Inr st' \<Rightarrow> I st')"
proof (induction cs arbitrary: st)
  case Nil
  then show ?case by simp
next
  case (Cons c cs)
  show ?case
  proof (cases "loop_body w sess st c")
    case (Inl x)
    with body [OF Cons.prems, of c] show ?thesis by simp
  next
    case (Inr st')
    with body [OF Cons.prems, of c] have "I st'" by simp
    from Cons.IH [OF this] Inr show ?thesis by simp
  qed
qed

lemma tool_use_branch_Inr:
  assumes "tool_use_branch w sess st c = Inr st'"
  shows "\<exists>n a res r t. b_name c = Some n \<and> b_input c = Some a \<and>
     call_tool w (length (tool_calls (trace st))) sess n a = Inr res \<and>
     first_block_text r = Inr t \<and>
     trace st' = trace st @ [ToolCall n a, ToolReturn res] @
                   map MsgAppend (block_messages c res) @
                   [ModelCall (followup_request (messages st')), ModelReply r] \<and>
     messages st' = messages st @ block_messages c res \<and>
     final_text st' = final_text st @ [calling_line w n a, t]"
  using assms
  by (auto simp: tool_use_branch_def block_messages_def Let_def
           split: option.splits sum.splits if_splits)

lemma calls_of_appends [simp]:
  "model_replies (map MsgAppend ms) = []"
  "model_calls (map MsgAppend ms) = []"
  "tool_calls (map MsgAppend ms) = []"
  by (induction ms) simp_all

lemma loop_body_Inr:
  assumes "loop_body w sess st c = Inr st'"
  shows "\<exists>rs. model_replies (trace st') = model_replies (trace st) @ rs \<and>
     length rs = length (filter is_tool_use [c]) \<and>
     length (model_calls (trace st')) =
       length (model_calls (trace st)) + length (filter is_tool_use [c]) \<and>
     tool_calls (trace st') = tool_calls (trace st) @ requested_calls [c] \<and>
     length (requested_calls [c]) = length (filter is_tool_use [c]) \<and>
     final_text st' = final_text st @ answer_lines w [c] rs \<and>
     length (messages st') = length (messages st) + length (filter is_tool_use [c]) +
       length (filter (\<lambda>b. is_tool_use b \<and> has_text b) [c])"
proof (cases "b_type c = ''text''")
  case True
  with assms show ?thesis
    by (auto simp: loop_body_def text_branch_def is_tool_use_def split: option.splits)
next
  case nt: False
  show ?thesis
  proof (cases "b_type c = ''tool_use''")
    case False
    with nt assms show ?thesis by (auto simp: loop_body_def is_tool_use_def)
  next
    case True
    with nt assms have "tool_use_branch w sess st c = Inr st'" by (simp add: loop_body_def)
    from tool_use_branch_Inr [OF this] obtain n a res r t where
      f: "b_name c = Some n" "b_input c = Some a" "first_block_text r = Inr t"
         "trace st' = trace st @ [ToolCall n a, ToolReturn res] @
                   map MsgAppend (block_messages c res) @
                   [ModelCall (followup_request (messages st')), ModelReply r]"
         "messages st' = messages st @ block_messages c res"
         "final_text st' = final_text st @ [calling_line w n a, t]"
      by blast
    from f True nt show ?thesis
      by (auto simp: is_tool_use_def block_messages_def intro!: exI [of _ "[r]"])
  qed
qed

lemma requested_calls_Cons: "requested_calls (c # cs) = requested_calls [c] @ requested_calls cs"
  by simp

lemma answer_lines_Cons:
  assumes "length rs1 = length (filter is_tool_use [c])"
  shows "answer_lines w (c # cs) (rs1 @ rs2) = answer_lines w [c] rs1 @ answer_lines w cs rs2"
proof (cases "is_tool_use c")
  case True
  with assms obtain r where "rs1 = [r]" by (cases rs1) auto
  with True show ?thesis by (simp add: is_tool_use_def)
next
  case False
  with assms have "rs1 = []" by simp
  with False show ?thesis by (simp add: is_tool_use_def)
qed

lemma for_content_Inr:
  assumes "for_content w sess cs st = Inr st'"
  shows "\<exists>rs. model_replies (trace st') = model_replies (trace st) @ rs \<and>
     length rs = length (filter is_tool_use cs) \<and>
     length (model_calls (trace st')) =
       length (model_calls (trace st)) + length (filter is_tool_use cs) \<and>
     tool_calls (trace st') = tool_calls (trace st) @ requested_calls cs \<and>
     length (requested_calls cs) = length (filter is_tool_use cs) \<and>
     final_text st' = final_text st @ answer_lines w cs rs \<and>
     length (messages st') = length (messages st) + length (filter is_tool_use cs) +
       length (filter (\<lambda>b. is_tool_use b \<and> has_text b) cs)"
  using assms
proof (induction cs arbitrary: st)
  case Nil
  then show ?case by simp
next
  case (Cons c cs)
  from Cons.prems obtain st1 where b: "loop_body w sess st c = Inr st1"
    and l: "for_content w sess cs st1 = Inr st'"
    by (auto split: sum.splits)
  from loop_body_Inr [OF b] obtain rs1 where
    1: "model_replies (trace st1) = model_replies (trace st) @ rs1"
       "length rs1 = length (filter is_tool_use [c])"
       "length (model_calls (trace st1)) =
          length (model_calls (trace st)) + length (filter is_tool_use [c])"
       "tool_calls (trace st1) = tool_calls (trace st) @ requested_calls [c]"
       "length (requested_calls [c]) = length (filter is_tool_use [c])"
       "final_text st1 = final_text st @ answer_lines w [c] rs1"
       "length (messages st1) = length (messages st) + length (filter is_tool_use [c]) +
          length (filter (\<lambda>b. is_tool_use b \<and> has_text b) [c])"
    by blast
  from Cons.IH [OF l] obtain rs2 where
    2: "model_replies (trace st') = model_replies (trace st1) @ rs2"
       "length rs2 = length (filter is_tool_use cs)"
       "length (model_calls (trace st')) =
          length (model_calls (trace st1)) + length (filter is_tool_use cs)"
       "tool_calls (trace st') = tool_calls (trace st1) @ requested_calls cs"
       "length (requested_calls cs) = length (filter is_tool_use cs)"
       "final_text st' = final_text st1 @ answer_lines w cs rs2"
       "length (messages st') = length (messages st1) + length (filter is_tool_use cs) +
          length (filter (\<lambda>b. is_tool_use b \<and> has_text b) cs)"
    by blast
  have "model_replies (trace st') = model_replies (trace st) @ (rs1 @ rs2)"
    using 1(1) 2(1) by simp
  moreover have "length (rs1 @ rs2) = length (filter is_tool_use (c # cs))"
    using 1(2) 2(2) by simp
  moreover have "length (model_calls (trace st')) =
      length (model_calls (trace st)) + length (filter is_tool_use (c # cs))"
    using 1(3) 2(3) by simp
  moreover have "tool_calls (trace st') = tool_calls (trace st) @ requested_calls (c # cs)"
    using 1(4) 2(4) requested_calls_Cons [of c cs] by simp
  moreover have "length (requested_calls (c # cs)) = length (filter is_tool_use (c # cs))"
    using 1(5) 2(5) requested_calls_Cons [of c cs] by simp
  moreover have "final_text st' = final_text st @ answer_lines w (c # cs) (rs1 @ rs2)"
    using 1(6) 2(6) answer_lines_Cons [OF 1(2), of w cs rs2] by simp
  moreover have "length (messages st') =
      length (messages st) + length (filter is_tool_use (c # cs)) +
      length (filter (\<lambda>b. is_tool_use b \<and> has_text b) (c # cs))"
    using 1(7) 2(7) by simp
  ultimately show ?case by blast
qed




lemma tool_use_branch_history:
  assumes "messages st = m0 # appended (trace st)"
  shows "messages (reached (tool_use_branch w sess st c)) =
           m0 # appended (trace (reached (tool_use_branch w sess st c)))"
  using assms
  by (simp add: tool_use_branch_def Let_def split: option.splits sum.splits)

lemma loop_body_history:
  assumes "messages st = m0 # appended (trace st)"
  shows "messages (reached (loop_body w sess st c)) =
           m0 # appended (trace (reached (loop_body w sess st c)))"
  using assms tool_use_branch_history [OF assms, of w sess c]
  by (simp add: loop_body_def text_branch_def split: option.splits)

lemma first_block_text_sdk:
  assumes "r = [] \<or> (sdk_block (hd r) \<and> b_type (hd r) \<noteq> ''text'')"
  shows "first_block_text r = Inl (if r = [] then IndexError else AttributeError)"
  using assms by (cases r) (auto simp: first_block_text_def sdk_block_def)

lemma tool_use_branch_first_text:
  assumes "model_replies (trace st) \<noteq> []"
    and "\<forall>r \<in> set (tl (model_replies (trace st))). \<exists>t. first_block_text r = Inr t"
  shows "case tool_use_branch w sess st c of
           Inl x \<Rightarrow> \<forall>r \<in> set (tl (model_replies (trace (snd x)))).
                      \<forall>e. first_block_text r = Inl e \<longrightarrow> e = fst x
         | Inr st' \<Rightarrow> model_replies (trace st') \<noteq> [] \<and>
             (\<forall>r \<in> set (tl (model_replies (trace st'))). \<exists>t. first_block_text r = Inr t)"
  using assms
  by (auto simp: tool_use_branch_def Let_def split: option.splits sum.splits)

lemma loop_body_first_text:
  assumes "model_replies (trace st) \<noteq> [] \<and>
     (\<forall>r \<in> set (tl (model_replies (trace st))). \<exists>t. first_block_text r = Inr t)"
  shows "case loop_body w sess st c of
           Inl x \<Rightarrow> \<forall>r \<in> set (tl (model_replies (trace (snd x)))).
                      \<forall>e. first_block_text r = Inl e \<longrightarrow> e = fst x
         | Inr st' \<Rightarrow> model_replies (trace st') \<noteq> [] \<and>
             (\<forall>r \<in> set (tl (model_replies (trace st'))). \<exists>t. first_block_text r = Inr t)"
proof -
  from assms have a: "model_replies (trace st) \<noteq> []"
    "\<forall>r \<in> set (tl (model_replies (trace st))). \<exists>t. first_block_text r = Inr t" by simp_all
  show ?thesis
    using a tool_use_branch_first_text [OF a, of w sess c]
    by (auto simp: loop_body_def text_branch_def split: option.splits)
qed



text \<open>What holds when the method returns.\<close>

lemma process_query_returns:
  fixes w :: "('a, 'r, 's, 't) world"
  assumes "process_query w self q = Inr (ans, st)"
  shows "\<exists>r0 rs. model_replies (trace st) = r0 # rs \<and>
     length rs = length (filter is_tool_use r0) \<and>
     length (model_calls (trace st)) = 1 + length (filter is_tool_use r0) \<and>
     tool_calls (trace st) = requested_calls r0 \<and>
     length (tool_calls (trace st)) = length (filter is_tool_use r0) \<and>
     ans = join_nl (answer_lines w r0 rs) \<and>
     length (messages st) = 1 + length (filter is_tool_use r0) +
       length (filter (\<lambda>b. is_tool_use b \<and> has_text b) r0)"
proof (cases rule: process_query_cases [where w = w and self = self and q = q])
  case no_session
  with assms show ?thesis by simp
next
  case (list_tools_raises sess e)
  with assms show ?thesis by simp
next
  case (model_raises sess tools e)
  with assms show ?thesis by simp
next
  case (loop sess tools r0)
  from loop(4) assms have l: "for_content w sess r0 (loop_entry q tools r0) = Inr st"
    and a: "ans = join_nl (final_text st)"
    by (auto split: sum.splits)
  from for_content_Inr [OF l] obtain rs where
    rs: "model_replies (trace st) = model_replies (trace (loop_entry q tools r0 :: ('a, 'r) pq_state)) @ rs"
     "length rs = length (filter is_tool_use r0)"
     "length (model_calls (trace st)) =
       length (model_calls (trace (loop_entry q tools r0 :: ('a, 'r) pq_state))) + length (filter is_tool_use r0)"
     "tool_calls (trace st) = tool_calls (trace (loop_entry q tools r0 :: ('a, 'r) pq_state)) @ requested_calls r0"
     "length (requested_calls r0) = length (filter is_tool_use r0)"
     "final_text st = final_text (loop_entry q tools r0 :: ('a, 'r) pq_state) @ answer_lines w r0 rs"
     "length (messages st) = length (messages (loop_entry q tools r0 :: ('a, 'r) pq_state)) + length (filter is_tool_use r0) +
       length (filter (\<lambda>b. is_tool_use b \<and> has_text b) r0)"
    by blast
  with a show ?thesis by simp
qed

lemma sdk_tool_use_no_text:
  assumes "\<forall>b \<in> set bs. sdk_block b"
  shows "filter (\<lambda>b. is_tool_use b \<and> has_text b) bs = []"
  using assms
  by (induction bs) (auto simp: sdk_block_def is_tool_use_def has_text_def split: option.splits)

lemma for_content_text_only:
  assumes "\<forall>b \<in> set cs. \<not> is_tool_use b" and "\<forall>b \<in> set cs. sdk_block b"
  shows "for_content w sess cs st = Inr (st\<lparr>final_text := final_text st @ text_blocks cs\<rparr>)"
  using assms
proof (induction cs arbitrary: st)
  case Nil
  show ?case by simp
next
  case (Cons c cs)
  from Cons.prems have c: "\<not> is_tool_use c" "sdk_block c" by simp_all
  have b: "loop_body w sess st c = Inr (st\<lparr>final_text := final_text st @ text_blocks [c]\<rparr>)"
    using c by (auto simp: loop_body_def text_branch_def is_tool_use_def sdk_block_def
                     split: option.splits)
  from Cons.prems have "\<forall>b \<in> set cs. \<not> is_tool_use b" "\<forall>b \<in> set cs. sdk_block b" by simp_all
  from Cons.IH [OF this] b show ?case by simp
qed

lemma process_query_history:
  fixes w :: "('a, 'r, 's, 't) world"
  shows "messages (final_state (process_query w self q)) =
     \<lparr>msg_role = ''user'', msg_content = Str q\<rparr> #
     appended (trace (final_state (process_query w self q)))"
proof (cases rule: process_query_cases [where w = w and self = self and q = q])
  case no_session
  then show ?thesis by (simp add: final_state_def)
next
  case (list_tools_raises sess e)
  then show ?thesis by (simp add: final_state_def)
next
  case (model_raises sess tools e)
  then show ?thesis by (simp add: final_state_def)
next
  case (loop sess tools r0)
  let ?P = "\<lambda>st :: ('a, 'r) pq_state.
     messages st = \<lparr>msg_role = ''user'', msg_content = Str q\<rparr> # appended (trace st)"
  have "?P (loop_entry q tools r0)" by simp
  moreover have "\<And>st c. ?P st \<Longrightarrow> ?P (reached (loop_body w sess st c))"
    by (rule loop_body_history)
  ultimately have "?P (reached (for_content w sess r0 (loop_entry q tools r0)))"
    using for_content_invariant [where P = ?P and w = w and sess = sess and cs = r0
                                   and st = "loop_entry q tools r0"]
    by blast
  with loop(5) show ?thesis by simp
qed

lemma strip_prefix_append [simp]: "strip_prefix xs (xs @ ys) = Some ys"
  by (induction xs) simp_all

lemma strip_prefix_same_append [simp]: "strip_prefix (xs @ ys) (xs @ zs) = strip_prefix ys zs"
  by (induction xs) simp_all

lemma strip_prefix_self [simp]: "strip_prefix xs xs = Some []"
  using strip_prefix_append [of xs "[]"] by simp

lemma tool_use_branch_follow_Inr:
  assumes "tool_use_branch w sess st c = Inr st'"
  shows "\<exists>suf. trace st' = trace st @ suf \<and>
     length (tool_calls (trace st')) = Suc (length (tool_calls (trace st))) \<and>
     (\<forall>cs rest. follow w sess (length (tool_calls (trace st))) (c # cs) (messages st) (suf @ rest) =
        follow w sess (Suc (length (tool_calls (trace st)))) cs (messages st') rest)"
proof -
  from tool_use_branch_Inr [OF assms] obtain n a res r t where
    f: "b_name c = Some n" "b_input c = Some a"
       "call_tool w (length (tool_calls (trace st))) sess n a = Inr res"
       "first_block_text r = Inr t"
       "trace st' = trace st @ [ToolCall n a, ToolReturn res] @
                   map MsgAppend (block_messages c res) @
                   [ModelCall (followup_request (messages st')), ModelReply r]"
       "messages st' = messages st @ block_messages c res"
    by blast
  let ?suf = "[ToolCall n a, ToolReturn res] @ map MsgAppend (block_messages c res) @
                   [ModelCall (followup_request (messages st')), ModelReply r]"
  have "trace st' = trace st @ ?suf" using f(5) by simp
  moreover have "length (tool_calls (trace st')) = Suc (length (tool_calls (trace st)))"
    using f(5) by simp
  moreover have "follow w sess (length (tool_calls (trace st))) (c # cs) (messages st) (?suf @ rest) =
        follow w sess (Suc (length (tool_calls (trace st)))) cs (messages st') rest" for cs rest
    using f(1,2,3,4,6) by simp
  ultimately show ?thesis by blast
qed

lemma tool_use_branch_follow_Inl:
  assumes "tool_use_branch w sess st c = Inl x"
  shows "\<exists>suf. trace (snd x) = trace st @ suf \<and>
     follow w sess (length (tool_calls (trace st))) (c # cs) (messages st) suf = Stopped"
  using assms
  by (auto simp: tool_use_branch_def block_messages_def Let_def
           split: option.splits sum.splits if_splits)

lemma for_content_follows:
  "\<exists>suf. trace (reached (for_content w sess cs st)) = trace st @ suf \<and>
     (case for_content w sess cs st of
        Inl x \<Rightarrow>
          follow w sess (length (tool_calls (trace st))) (filter is_tool_use cs) (messages st) suf
            = Stopped \<or>
          follow w sess (length (tool_calls (trace st))) (filter is_tool_use cs) (messages st) suf
            = Completed
      | Inr st' \<Rightarrow>
          follow w sess (length (tool_calls (trace st))) (filter is_tool_use cs) (messages st) suf
            = Completed)"
proof (induction cs arbitrary: st)
  case Nil
  show ?case by simp
next
  case (Cons c cs)
  let ?k = "length (tool_calls (trace st))"
  show ?case
  proof (cases "is_tool_use c")
    case False
    show ?thesis
    proof (cases "loop_body w sess st c")
      case (Inl x)
      with False have "trace (snd x) = trace st"
        by (auto simp: loop_body_def text_branch_def is_tool_use_def split: option.splits if_splits)
      with Inl False show ?thesis
        by (cases "filter is_tool_use cs") (auto simp: reached_def)
    next
      case (Inr st1)
      with False have same: "trace st1 = trace st" "messages st1 = messages st"
        by (auto simp: loop_body_def text_branch_def is_tool_use_def split: option.splits if_splits)
      have f: "filter is_tool_use (c # cs) = filter is_tool_use cs" using False by simp
      have r: "for_content w sess (c # cs) st = for_content w sess cs st1" using Inr by simp
      from Cons.IH [of st1] show ?thesis unfolding f r same .
    qed
  next
    case True
    then have lb: "loop_body w sess st c = tool_use_branch w sess st c"
      by (simp add: loop_body_def is_tool_use_def)
    show ?thesis
    proof (cases "tool_use_branch w sess st c")
      case (Inl x)
      from tool_use_branch_follow_Inl [OF Inl, of "filter is_tool_use cs"] obtain suf where
        "trace (snd x) = trace st @ suf"
        "follow w sess ?k (c # filter is_tool_use cs) (messages st) suf = Stopped"
        by blast
      with Inl lb True show ?thesis by (auto simp: reached_def)
    next
      case (Inr st1)
      from tool_use_branch_follow_Inr [OF Inr] obtain suf1 where
        1: "trace st1 = trace st @ suf1"
           "length (tool_calls (trace st1)) = Suc ?k"
           "\<And>cs rest. follow w sess ?k (c # cs) (messages st) (suf1 @ rest) =
              follow w sess (Suc ?k) cs (messages st1) rest"
        by blast
      from Cons.IH [of st1] obtain suf2 where
        2: "trace (reached (for_content w sess cs st1)) = trace st1 @ suf2"
           "case for_content w sess cs st1 of
              Inl x \<Rightarrow>
                follow w sess (length (tool_calls (trace st1))) (filter is_tool_use cs) (messages st1) suf2
                  = Stopped \<or>
                follow w sess (length (tool_calls (trace st1))) (filter is_tool_use cs) (messages st1) suf2
                  = Completed
            | Inr st' \<Rightarrow>
                follow w sess (length (tool_calls (trace st1))) (filter is_tool_use cs) (messages st1) suf2
                  = Completed"
        by blast
      have "trace (reached (for_content w sess (c # cs) st)) = trace st @ (suf1 @ suf2)"
        using 1(1) 2(1) Inr lb by simp
      moreover have "follow w sess ?k (filter is_tool_use (c # cs)) (messages st) (suf1 @ suf2) =
          follow w sess (length (tool_calls (trace st1))) (filter is_tool_use cs) (messages st1) suf2"
        using True 1(2) 1(3) [of "filter is_tool_use cs" suf2] by simp
      ultimately show ?thesis using 2(2) Inr lb
        by (auto split: sum.splits intro!: exI [of _ "suf1 @ suf2"])
    qed
  qed
qed

lemma for_content_messages:
  assumes "for_content w sess cs st = Inr st'"
  shows "messages st' = messages st @ tool_messages w sess (length (tool_calls (trace st))) cs"
  using assms
proof (induction cs arbitrary: st)
  case Nil
  then show ?case by simp
next
  case (Cons c cs)
  from Cons.prems obtain st1 where b: "loop_body w sess st c = Inr st1"
    and l: "for_content w sess cs st1 = Inr st'"
    by (auto split: sum.splits)
  show ?case
  proof (cases "is_tool_use c")
    case False
    with b have "trace st1 = trace st" "messages st1 = messages st"
      by (auto simp: loop_body_def text_branch_def is_tool_use_def split: option.splits if_splits)
    with Cons.IH [OF l] False show ?thesis by simp
  next
    case True
    with b have "tool_use_branch w sess st c = Inr st1"
      by (simp add: loop_body_def is_tool_use_def)
    from tool_use_branch_Inr [OF this] obtain n a res r t where
      f: "b_name c = Some n" "b_input c = Some a"
         "call_tool w (length (tool_calls (trace st))) sess n a = Inr res"
         "trace st1 = trace st @ [ToolCall n a, ToolReturn res] @
                   map MsgAppend (block_messages c res) @
                   [ModelCall (followup_request (messages st1)), ModelReply r]"
         "messages st1 = messages st @ block_messages c res"
      by blast
    from f(4) have "length (tool_calls (trace st1)) = Suc (length (tool_calls (trace st)))"
      by simp
    with Cons.IH [OF l] f(1,2,3,5) True show ?thesis by simp
  qed
qed

lemma process_query_returns_history:
  fixes w :: "('a, 'r, 's, 't) world"
  assumes "process_query w self q = Inr (ans, st)"
  shows "\<exists>sess r0 rs. session self = Some sess \<and> model_replies (trace st) = r0 # rs \<and>
     messages st = \<lparr>msg_role = ''user'', msg_content = Str q\<rparr> # tool_messages w sess 0 r0"
proof (cases rule: process_query_cases [where w = w and self = self and q = q])
  case no_session
  with assms show ?thesis by simp
next
  case (list_tools_raises sess e)
  with assms show ?thesis by simp
next
  case (model_raises sess tools e)
  with assms show ?thesis by simp
next
  case (loop sess tools r0)
  let ?entry = "loop_entry q tools r0 :: ('a, 'r) pq_state"
  from loop(4) assms have l: "for_content w sess r0 ?entry = Inr st"
    by (auto split: sum.splits)
  from for_content_messages [OF l]
  have m: "messages st = \<lparr>msg_role = ''user'', msg_content = Str q\<rparr> # tool_messages w sess 0 r0"
    by simp
  from for_content_Inr [OF l] obtain rs where
    "model_replies (trace st) = model_replies (trace ?entry) @ rs" by blast
  then have "model_replies (trace st) = r0 # rs" by simp
  with m loop(1) show ?thesis by blast
qed

section \<open>The claims\<close>

subsection \<open>C1: when the loop ends\<close>

text \<open>
  As stated, C1 says that a tool-use block in any model response of the query, the
  follow-up responses included, is processed and followed by a further model call before
  the loop ends. The code does not do that: the \<open>for\<close> loop ranges over the content of
  the first response, and of a follow-up response only the text of the first block is
  read. In the run below the follow-up response holds a tool-use block (\<open>{q2}\<close>); the
  method returns, that response is the last event of the run, and the only tool call
  made is the one the first response asked for.
\<close>

theorem followup_tool_use_not_processed:
  "answer (process_query demo_world connected_client ''hi'') =
     Some (''Looking.'' @ NL @ ''[Calling tool query with args {q}]'' @ NL @ ''Done.'') \<and>
   last (trace (final_state (process_query demo_world connected_client ''hi''))) =
     ModelReply [text_block ''Done.'', tool_use_block ''query'' ''{q2}''] \<and>
   is_tool_use (tool_use_block ''query'' ''{q2}'') \<and>
   tool_calls (trace (final_state (process_query demo_world connected_client ''hi''))) =
     [(''query'', ''{q}'')]"
  by (simp add: demo_defs calling_line_def answer_def is_tool_use_def)

text \<open>
  C1, as amended. The loop of \<open>process_query\<close> ranges over the content blocks of the
  first model response only. When the method returns, every tool-use block of the first
  response (\<open>r0\<close>) has been processed, in order: its tool was called, and one further
  model call was issued for it, so that there are as many follow-up responses (\<open>rs\<close>)
  and tool calls as the first response has tool-use blocks. The loop ends after the last
  block of the first response, whatever blocks the follow-up responses hold.
\<close>

theorem loop_ranges_over_first_response:
  fixes w :: "('a, 'r, 's, 't) world"
  assumes "process_query w self q = Inr (ans, st)"
  shows "\<exists>r0 rs. model_replies (trace st) = r0 # rs \<and>
     tool_calls (trace st) = requested_calls r0 \<and>
     length (tool_calls (trace st)) = length (filter is_tool_use r0) \<and>
     length (model_calls (trace st)) = 1 + length (filter is_tool_use r0) \<and>
     length rs = length (filter is_tool_use r0)"
  using process_query_returns [OF assms] by blast

theorem loop_ranges_over_first_response_witness:
  "process_query demo_world connected_client ''hi'' =
     Inr (''Looking.'' @ NL @ ''[Calling tool query with args {q}]'' @ NL @ ''Done.'',
          final_state (process_query demo_world connected_client ''hi'')) \<and>
   tool_calls (trace (final_state (process_query demo_world connected_client ''hi''))) =
     [(''query'', ''{q}'')] \<and>
   length (model_calls (trace (final_state (process_query demo_world connected_client ''hi'')))) = 2"
proof -
  have h: "process_query demo_world connected_client ''hi'' =
     Inr (''Looking.'' @ NL @ ''[Calling tool query with args {q}]'' @ NL @ ''Done.'',
          final_state (process_query demo_world connected_client ''hi''))"
    by (simp add: demo_defs calling_line_def)
  have r: "model_replies (trace (final_state (process_query demo_world connected_client ''hi''))) =
     [[text_block ''Looking.'', tool_use_block ''query'' ''{q}''],
      [text_block ''Done.'', tool_use_block ''query'' ''{q2}'']]"
    by (simp add: demo_defs)
  from loop_ranges_over_first_response [OF h] r
  have "tool_calls (trace (final_state (process_query demo_world connected_client ''hi''))) =
          requested_calls [text_block ''Looking.'', tool_use_block ''query'' ''{q}''] \<and>
        length (model_calls (trace (final_state (process_query demo_world connected_client ''hi'')))) =
          1 + length (filter is_tool_use [text_block ''Looking.'', tool_use_block ''query'' ''{q}''])"
    by auto
  with h show ?thesis
    by (simp add: is_tool_use_def text_block_def tool_use_block_def)
qed

subsection \<open>C2: which tool-use blocks are answered\<close>

text \<open>
  As stated, C2 says that every tool-use block met in a model response is answered by a
  tool-result message before the next model call, and that no model call is issued
  while such a block is unanswered. That holds of the blocks of the first response only.
  In the run below the second response, a follow-up, holds a tool-use block (\<open>{q3}\<close>);
  its tool is never called and no message answers it, and the third model call is
  issued after it.
\<close>

theorem followup_tool_use_unanswered:
  "answer (process_query two_calls_world connected_client ''hi'') =
     Some (''[Calling tool query with args {q}]'' @ NL @ ''Done.'' @ NL @
           ''[Calling tool query with args {q2}]'' @ NL @ ''Done.'') \<and>
   trace (final_state (process_query two_calls_world connected_client ''hi'')) =
     [ListTools,
      ModelCall (first_request [\<lparr>msg_role = ''user'', msg_content = Str ''hi''\<rparr>]
        [\<lparr>d_name = ''query'', d_description = ''Run SQL'', d_input_schema = ''{}''\<rparr>]),
      ModelReply [tool_use_block ''query'' ''{q}'', tool_use_block ''query'' ''{q2}''],
      ToolCall ''query'' ''{q}'',
      ToolReturn \<lparr>tr_content = ''rows'', tr_isError = False\<rparr>,
      MsgAppend \<lparr>msg_role = ''user'', msg_content = ToolPayload ''rows''\<rparr>,
      ModelCall (followup_request [\<lparr>msg_role = ''user'', msg_content = Str ''hi''\<rparr>,
                        \<lparr>msg_role = ''user'', msg_content = ToolPayload ''rows''\<rparr>]),
      ModelReply [text_block ''Done.'', tool_use_block ''query'' ''{q3}''],
      ToolCall ''query'' ''{q2}'',
      ToolReturn \<lparr>tr_content = ''rows'', tr_isError = False\<rparr>,
      MsgAppend \<lparr>msg_role = ''user'', msg_content = ToolPayload ''rows''\<rparr>,
      ModelCall (followup_request [\<lparr>msg_role = ''user'', msg_content = Str ''hi''\<rparr>,
                        \<lparr>msg_role = ''user'', msg_content = ToolPayload ''rows''\<rparr>,
                        \<lparr>msg_role = ''user'', msg_content = ToolPayload ''rows''\<rparr>]),
      ModelReply [text_block ''Done.'', tool_use_block ''query'' ''{q3}'']] \<and>
   is_tool_use (tool_use_block ''query'' ''{q3}'')"
  by (simp add: demo_defs calling_line_def answer_def is_tool_use_def available_tools_of_def)

text \<open>
  C2, as amended. Every tool-use block of the first model response is answered, in
  order, before the next model call: its tool is called with the block's name and
  input, the content of the result is appended to the history in exactly one user-role
  message (after an assistant message when the block has a non-empty text), and then
  one model call is issued with that history. A run that returns has answered all of
  them in this way; a run that raises has stopped at one of these steps. The tool-use
  blocks of follow-up responses are not answered. The last part of the theorem ties
  the appends of the trace to the history: the history is the query followed by the
  appended messages.
\<close>

theorem first_response_tool_use_answered:
  fixes w :: "('a, 'r, 's, 't) world"
  assumes "session self = Some sess"
    and "list_tools w sess = Inr tools"
    and "messages_create w 0
           (first_request [\<lparr>msg_role = ''user'', msg_content = Str q\<rparr>] (available_tools_of tools)) =
         Inr r0"
  shows "\<exists>es. trace (final_state (process_query w self q)) =
           [ListTools,
            ModelCall (first_request [\<lparr>msg_role = ''user'', msg_content = Str q\<rparr>]
                         (available_tools_of tools)),
            ModelReply r0] @ es \<and>
         (follow w sess 0 (filter is_tool_use r0)
            [\<lparr>msg_role = ''user'', msg_content = Str q\<rparr>] es = Completed \<or>
          (answer (process_query w self q) = None \<and>
           follow w sess 0 (filter is_tool_use r0)
             [\<lparr>msg_role = ''user'', msg_content = Str q\<rparr>] es = Stopped)) \<and>
         messages (final_state (process_query w self q)) =
           \<lparr>msg_role = ''user'', msg_content = Str q\<rparr> #
           appended (trace (final_state (process_query w self q)))"
proof -
  let ?entry = "loop_entry q tools r0 :: ('a, 'r) pq_state"
  from assms have pq: "process_query w self q =
      (case for_content w sess r0 ?entry of
         Inl x \<Rightarrow> Inl x
       | Inr st \<Rightarrow> Inr (join_nl (final_text st), st))"
    by (simp add: process_query_def Let_def loop_entry_def)
  then have fs: "final_state (process_query w self q) = reached (for_content w sess r0 ?entry)"
    by (simp add: final_state_def reached_def split: sum.splits)
  from for_content_follows [of w sess r0 ?entry] obtain es where
    es: "trace (reached (for_content w sess r0 ?entry)) = trace ?entry @ es"
        "case for_content w sess r0 ?entry of
           Inl x \<Rightarrow>
             follow w sess (length (tool_calls (trace ?entry))) (filter is_tool_use r0)
               (messages ?entry) es = Stopped \<or>
             follow w sess (length (tool_calls (trace ?entry))) (filter is_tool_use r0)
               (messages ?entry) es = Completed
         | Inr st' \<Rightarrow>
             follow w sess (length (tool_calls (trace ?entry))) (filter is_tool_use r0)
               (messages ?entry) es = Completed"
    by blast
  have 1: "trace (final_state (process_query w self q)) =
           [ListTools,
            ModelCall (first_request [\<lparr>msg_role = ''user'', msg_content = Str q\<rparr>]
                         (available_tools_of tools)),
            ModelReply r0] @ es"
    using fs es(1) by simp
  have 2: "follow w sess 0 (filter is_tool_use r0)
            [\<lparr>msg_role = ''user'', msg_content = Str q\<rparr>] es = Completed \<or>
          (answer (process_query w self q) = None \<and>
           follow w sess 0 (filter is_tool_use r0)
             [\<lparr>msg_role = ''user'', msg_content = Str q\<rparr>] es = Stopped)"
    using es(2) pq by (cases "for_content w sess r0 ?entry") (auto simp: answer_def)
  from 1 2 process_query_history [of w self q] show ?thesis by blast
qed

theorem first_response_tool_use_answered_witness:
  "follow two_calls_world 0 0
     [tool_use_block ''query'' ''{q}'', tool_use_block ''query'' ''{q2}'']
     [\<lparr>msg_role = ''user'', msg_content = Str ''hi''\<rparr>]
     (drop 3 (trace (final_state (process_query two_calls_world connected_client ''hi'')))) =
     Completed \<and>
   messages (final_state (process_query two_calls_world connected_client ''hi'')) =
     [\<lparr>msg_role = ''user'', msg_content = Str ''hi''\<rparr>,
      \<lparr>msg_role = ''user'', msg_content = ToolPayload ''rows''\<rparr>,
      \<lparr>msg_role = ''user'', msg_content = ToolPayload ''rows''\<rparr>]"
proof -
  have 1: "session connected_client = Some 0" by (simp add: connected_client_def)
  have 2: "list_tools two_calls_world 0 =
      Inr [\<lparr>t_name = ''query'', t_description = ''Run SQL'', t_inputSchema = ''{}''\<rparr>]"
    by (simp add: two_calls_world_def scripted_world_def)
  have 3: "messages_create two_calls_world 0
           (first_request [\<lparr>msg_role = ''user'', msg_content = Str ''hi''\<rparr>]
              (available_tools_of [\<lparr>t_name = ''query'', t_description = ''Run SQL'', t_inputSchema = ''{}''\<rparr>])) =
         Inr [tool_use_block ''query'' ''{q}'', tool_use_block ''query'' ''{q2}'']"
    by (simp add: two_calls_world_def scripted_world_def)
  have a: "answer (process_query two_calls_world connected_client ''hi'') \<noteq> None"
    by (simp add: demo_defs answer_def)
  have m: "appended (trace (final_state (process_query two_calls_world connected_client ''hi''))) =
     [\<lparr>msg_role = ''user'', msg_content = ToolPayload ''rows''\<rparr>,
      \<lparr>msg_role = ''user'', msg_content = ToolPayload ''rows''\<rparr>]"
    by (simp add: demo_defs)
  have f: "filter is_tool_use [tool_use_block ''query'' ''{q}'', tool_use_block ''query'' ''{q2}''] =
      [tool_use_block ''query'' ''{q}'', tool_use_block ''query'' ''{q2}'']"
    by (simp add: is_tool_use_def tool_use_block_def)
  from first_response_tool_use_answered [OF 1 2 3] obtain es where
    e: "trace (final_state (process_query two_calls_world connected_client ''hi'')) =
          [ListTools,
           ModelCall (first_request [\<lparr>msg_role = ''user'', msg_content = Str ''hi''\<rparr>]
              (available_tools_of [\<lparr>t_name = ''query'', t_description = ''Run SQL'', t_inputSchema = ''{}''\<rparr>])),
           ModelReply [tool_use_block ''query'' ''{q}'', tool_use_block ''query'' ''{q2}'']] @ es"
    and v: "follow two_calls_world 0 0
              (filter is_tool_use [tool_use_block ''query'' ''{q}'', tool_use_block ''query'' ''{q2}''])
              [\<lparr>msg_role = ''user'', msg_content = Str ''hi''\<rparr>] es = Completed \<or>
            (answer (process_query two_calls_world connected_client ''hi'') = None \<and>
             follow two_calls_world 0 0
              (filter is_tool_use [tool_use_block ''query'' ''{q}'', tool_use_block ''query'' ''{q2}''])
              [\<lparr>msg_role = ''user'', msg_content = Str ''hi''\<rparr>] es = Stopped)"
    and h: "messages (final_state (process_query two_calls_world connected_client ''hi'')) =
           \<lparr>msg_role = ''user'', msg_content = Str ''hi''\<rparr> #
           appended (trace (final_state (process_query two_calls_world connected_client ''hi'')))"
    by blast
  from e have "drop 3 (trace (final_state (process_query two_calls_world connected_client ''hi''))) = es"
    by simp
  with v a f h m show ?thesis by (simp del: follow.simps)
qed

subsection \<open>C3: model calls and growth of the history\<close>

text \<open>
  As stated, C3 says that the history grows by exactly two messages for each tool-use
  block processed. The assistant message is appended only when the block has a non-empty
  \<open>text\<close> attribute, which a tool-use block of the library does not have. In the run
  below one tool-use block is processed and the history grows by one message, from the
  query alone to the query and the tool result.
\<close>

theorem history_grows_by_one:
  "answer (process_query demo_world connected_client ''hi'') =
     Some (''Looking.'' @ NL @ ''[Calling tool query with args {q}]'' @ NL @ ''Done.'') \<and>
   length (tool_calls (trace (final_state (process_query demo_world connected_client ''hi'')))) = 1 \<and>
   messages (final_state (process_query demo_world connected_client ''hi'')) =
     [\<lparr>msg_role = ''user'', msg_content = Str ''hi''\<rparr>,
      \<lparr>msg_role = ''user'', msg_content = ToolPayload ''rows''\<rparr>]"
  by (simp add: demo_defs calling_line_def answer_def)

text \<open>
  C3, as amended. When \<open>process_query\<close> returns and the first model response (\<open>r0\<close>)
  contains N tool-use blocks, exactly N model calls beyond the first were made, and the
  history has grown from the query by one user-role tool-result message for each
  tool-use block, plus one assistant message before it for each tool-use block that
  carries a non-empty text. The history is the query followed by \<open>tool_messages\<close>: for
  each tool-use block in order, the block's text if any and the content of the result
  its tool returned. When the blocks are blocks of the library, none carries a text and
  the history has grown by exactly N messages.
\<close>

theorem calls_and_history_growth:
  fixes w :: "('a, 'r, 's, 't) world"
  assumes "process_query w self q = Inr (ans, st)"
  shows "\<exists>sess r0 rs. session self = Some sess \<and> model_replies (trace st) = r0 # rs \<and>
     length (model_calls (trace st)) = 1 + length (filter is_tool_use r0) \<and>
     messages st = \<lparr>msg_role = ''user'', msg_content = Str q\<rparr> # tool_messages w sess 0 r0 \<and>
     length (messages st) = 1 + length (filter is_tool_use r0) +
       length (filter (\<lambda>b. is_tool_use b \<and> has_text b) r0) \<and>
     ((\<forall>b \<in> set r0. sdk_block b) \<longrightarrow>
        length (messages st) = 1 + length (filter is_tool_use r0))"
proof -
  from process_query_returns_history [OF assms] obtain sess r0 rs where
    h: "session self = Some sess" "model_replies (trace st) = r0 # rs"
       "messages st = \<lparr>msg_role = ''user'', msg_content = Str q\<rparr> # tool_messages w sess 0 r0"
    by blast
  from process_query_returns [OF assms] h(2) have
    f: "length (model_calls (trace st)) = 1 + length (filter is_tool_use r0)"
       "length (messages st) = 1 + length (filter is_tool_use r0) +
          length (filter (\<lambda>b. is_tool_use b \<and> has_text b) r0)"
    by auto
  have "(\<forall>b \<in> set r0. sdk_block b) \<longrightarrow> length (messages st) = 1 + length (filter is_tool_use r0)"
    using f(2) sdk_tool_use_no_text [of r0] by auto
  with h f show ?thesis by blast
qed

theorem calls_and_history_growth_witness:
  "length (model_calls (trace (final_state (process_query noted_world connected_client ''hi'')))) = 3 \<and>
   messages (final_state (process_query noted_world connected_client ''hi'')) =
     [\<lparr>msg_role = ''user'', msg_content = Str ''hi''\<rparr>,
      \<lparr>msg_role = ''user'', msg_content = ToolPayload ''rows''\<rparr>,
      \<lparr>msg_role = ''assistant'', msg_content = Str ''note''\<rparr>,
      \<lparr>msg_role = ''user'', msg_content = ToolPayload ''rows''\<rparr>]"
proof -
  have h: "process_query noted_world connected_client ''hi'' =
     Inr (''[Calling tool query with args {q}]'' @ NL @ ''ok'' @ NL @
          ''[Calling tool query with args {q2}]'' @ NL @ ''ok'',
          final_state (process_query noted_world connected_client ''hi''))"
    by (simp add: demo_defs calling_line_def)
  have r: "model_replies (trace (final_state (process_query noted_world connected_client ''hi''))) =
     [[tool_use_block ''query'' ''{q}'',
        \<lparr>b_type = ''tool_use'', b_text = Some ''note'', b_name = Some ''query'',
         b_input = Some ''{q2}''\<rparr>], [text_block ''ok''], [text_block ''ok'']]"
    by (simp add: demo_defs)
  have s: "session connected_client = Some 0" by (simp add: connected_client_def)
  from calls_and_history_growth [OF h] obtain sess r0 rs where
    c: "session connected_client = Some sess"
       "model_replies (trace (final_state (process_query noted_world connected_client ''hi''))) = r0 # rs"
       "length (model_calls (trace (final_state (process_query noted_world connected_client ''hi'')))) =
          1 + length (filter is_tool_use r0)"
       "messages (final_state (process_query noted_world connected_client ''hi'')) =
          \<lparr>msg_role = ''user'', msg_content = Str ''hi''\<rparr> # tool_messages noted_world sess 0 r0"
    by blast
  from c(1) s have "sess = 0" by simp
  moreover from c(2) r have "r0 = [tool_use_block ''query'' ''{q}'',
        \<lparr>b_type = ''tool_use'', b_text = Some ''note'', b_name = Some ''query'',
         b_input = Some ''{q2}''\<rparr>]" by simp
  ultimately show ?thesis using c(3,4)
    by (simp add: is_tool_use_def has_text_def tool_use_block_def block_messages_def
                  noted_world_def scripted_world_def)
qed

subsection \<open>C4: which requests carry the tool declarations\<close>

text \<open>
  As stated, C4 says that every model request of a query carries the tool declarations,
  recomputed from \<open>list_tools\<close> for every call. In the run below two model calls are
  made: the first carries the declarations, the second carries none, and \<open>list_tools\<close>
  was called once.
\<close>

theorem followup_call_without_tools:
  "map req_tools (model_calls (trace (final_state (process_query demo_world connected_client ''hi'')))) =
     [Some [\<lparr>d_name = ''query'', d_description = ''Run SQL'', d_input_schema = ''{}''\<rparr>], None] \<and>
   list_tools_calls (trace (final_state (process_query demo_world connected_client ''hi''))) = 1"
  by (simp add: demo_defs available_tools_of_def first_request_def followup_request_def)

text \<open>
  C4, as amended. Only the first model request of a query carries the tool
  declarations: they are computed once for the query, from the one call of
  \<open>list_tools\<close> made before the first model call. Every follow-up request, issued
  after a tool result, is sent without tool declarations.
\<close>

theorem tools_on_first_call_only:
  fixes w :: "('a, 'r, 's, 't) world"
  assumes "model_calls (trace (final_state (process_query w self q))) = r # rs"
  shows "(\<exists>sess tools. session self = Some sess \<and> list_tools w sess = Inr tools \<and>
            req_tools r = Some (available_tools_of tools)) \<and>
         (\<forall>r' \<in> set rs. req_tools r' = None) \<and>
         list_tools_calls (trace (final_state (process_query w self q))) = 1"
proof (cases rule: process_query_cases [where w = w and self = self and q = q])
  case no_session
  with assms show ?thesis by (simp add: final_state_def)
next
  case (list_tools_raises sess e)
  with assms show ?thesis by (simp add: final_state_def)
next
  case (model_raises sess tools e)
  with assms show ?thesis by (auto simp: final_state_def first_request_def)
next
  case (loop sess tools r0)
  obtain suf where suf:
    "trace (reached (for_content w sess r0 (loop_entry q tools r0))) =
       trace (loop_entry q tools r0 :: ('a, 'r) pq_state) @ suf"
    "list_tools_calls suf = 0"
    "\<forall>r \<in> set (model_calls suf). req_system r = Some SYSTEM_PROMPT \<and> req_tools r = None"
    using for_content_requests [of w sess r0 "loop_entry q tools r0"] by blast
  with assms loop(5) have "r = first_request [\<lparr>msg_role = ''user'', msg_content = Str q\<rparr>]
                   (available_tools_of tools)" "rs = model_calls suf"
    "list_tools_calls (trace (final_state (process_query w self q))) = 1"
    by simp_all
  with suf(3) loop(1,2) show ?thesis by (simp add: first_request_def)
qed

theorem tools_on_first_call_only_witness:
  "map req_tools (model_calls (trace (final_state (process_query noted_world connected_client ''hi'')))) =
     [Some (available_tools_of
        [\<lparr>t_name = ''query'', t_description = ''Run SQL'', t_inputSchema = ''{}''\<rparr>]), None, None] \<and>
   list_tools_calls (trace (final_state (process_query noted_world connected_client ''hi''))) = 1"
proof -
  have "\<exists>r r1 r2. model_calls (trace (final_state (process_query noted_world connected_client ''hi''))) =
     [r, r1, r2]"
    by (simp add: demo_defs)
  then obtain r r1 r2 where
    h: "model_calls (trace (final_state (process_query noted_world connected_client ''hi''))) =
     r # [r1, r2]" by blast
  have s: "session connected_client = Some 0" "list_tools noted_world 0 =
      Inr [\<lparr>t_name = ''query'', t_description = ''Run SQL'', t_inputSchema = ''{}''\<rparr>]"
    by (simp_all add: connected_client_def noted_world_def scripted_world_def)
  from tools_on_first_call_only [OF h] s h show ?thesis by auto
qed

subsection \<open>C5: the system prompt\<close>

text \<open>
  C5. For every query processed, the first model call carries no system prompt, and every
  model call from the second onward (each call issued after a tool-use block was
  processed) carries the system prompt. The theorem speaks of all the model calls of a
  run, whether the run returns or raises.
\<close>

theorem system_prompt_from_second_call:
  fixes w :: "('a, 'r, 's, 't) world"
  assumes "model_calls (trace (final_state (process_query w self q))) = r # rs"
  shows "req_system r = None \<and> (\<forall>r' \<in> set rs. req_system r' = Some SYSTEM_PROMPT)"
proof (cases rule: process_query_cases [where w = w and self = self and q = q])
  case no_session
  with assms show ?thesis by (simp add: final_state_def)
next
  case (list_tools_raises sess e)
  with assms show ?thesis by (simp add: final_state_def)
next
  case (model_raises sess tools e)
  with assms show ?thesis by (auto simp: final_state_def first_request_def)
next
  case (loop sess tools r0)
  obtain suf where suf:
    "trace (reached (for_content w sess r0 (loop_entry q tools r0))) =
       trace (loop_entry q tools r0 :: ('a, 'r) pq_state) @ suf"
    "\<forall>r \<in> set (model_calls suf). req_system r = Some SYSTEM_PROMPT \<and> req_tools r = None"
    using for_content_requests [of w sess r0 "loop_entry q tools r0"] by blast
  with assms loop(5) show ?thesis by (auto simp: first_request_def)
qed

theorem system_prompt_from_second_call_witness:
  "model_calls (trace (final_state (process_query demo_world connected_client ''hi''))) =
     [first_request [\<lparr>msg_role = ''user'', msg_content = Str ''hi''\<rparr>]
        [\<lparr>d_name = ''query'', d_description = ''Run SQL'', d_input_schema = ''{}''\<rparr>],
      followup_request [\<lparr>msg_role = ''user'', msg_content = Str ''hi''\<rparr>,
                        \<lparr>msg_role = ''user'', msg_content = ToolPayload ''rows''\<rparr>]] \<and>
   req_system (first_request [\<lparr>msg_role = ''user'', msg_content = Str ''hi''\<rparr>]
        [\<lparr>d_name = ''query'', d_description = ''Run SQL'', d_input_schema = ''{}''\<rparr>]
        :: (string, string) request) = None \<and>
   req_system (followup_request [\<lparr>msg_role = ''user'', msg_content = Str ''hi''\<rparr>,
                        \<lparr>msg_role = ''user'', msg_content = ToolPayload ''rows''\<rparr>]
        :: (string, string) request) = Some SYSTEM_PROMPT"
proof -
  have h: "model_calls (trace (final_state (process_query demo_world connected_client ''hi''))) =
     [first_request [\<lparr>msg_role = ''user'', msg_content = Str ''hi''\<rparr>]
        [\<lparr>d_name = ''query'', d_description = ''Run SQL'', d_input_schema = ''{}''\<rparr>],
      followup_request [\<lparr>msg_role = ''user'', msg_content = Str ''hi''\<rparr>,
                        \<lparr>msg_role = ''user'', msg_content = ToolPayload ''rows''\<rparr>]]"
    by (simp add: demo_defs available_tools_of_def)
  from system_prompt_from_second_call [OF h] h show ?thesis by simp
qed

subsection \<open>C6: a response without tool-use blocks\<close>

text \<open>
  C6. When the first model response contains no tool-use block, \<open>process_query\<close>
  performs exactly one model call and returns the texts of all the text blocks of that
  response, in order, joined with newlines. The response is one the model API gave to a
  connected client (there is a session, \<open>list_tools\<close> and the model call did not
  raise), and its blocks are blocks of the library.
\<close>

theorem text_only_response:
  fixes w :: "('a, 'r, 's, 't) world"
  assumes "session self = Some sess"
    and "list_tools w sess = Inr tools"
    and "messages_create w 0
           (first_request [\<lparr>msg_role = ''user'', msg_content = Str q\<rparr>] (available_tools_of tools)) =
         Inr r0"
    and "\<forall>b \<in> set r0. \<not> is_tool_use b"
    and "\<forall>b \<in> set r0. sdk_block b"
  shows "answer (process_query w self q) = Some (join_nl (text_blocks r0)) \<and>
         length (model_calls (trace (final_state (process_query w self q)))) = 1 \<and>
         model_replies (trace (final_state (process_query w self q))) = [r0]"
proof -
  have "for_content w sess r0 (loop_entry q tools r0) =
      Inr ((loop_entry q tools r0)\<lparr>final_text :=
             final_text (loop_entry q tools r0 :: ('a, 'r) pq_state) @ text_blocks r0\<rparr>)"
    using assms(4,5) by (rule for_content_text_only)
  with assms(1,2,3) have "process_query w self q =
      Inr (join_nl (text_blocks r0), (loop_entry q tools r0)\<lparr>final_text := text_blocks r0\<rparr>)"
    by (simp add: process_query_def Let_def loop_entry_def)
  then show ?thesis by (simp add: answer_def final_state_def)
qed

theorem text_only_response_witness:
  "answer (process_query text_only_world connected_client ''hi'') = Some (''Hello'' @ NL @ ''World'') \<and>
   length (model_calls (trace (final_state (process_query text_only_world connected_client ''hi'')))) = 1"
proof -
  have 1: "session connected_client = Some 0" by (simp add: connected_client_def)
  have 2: "list_tools text_only_world 0 =
      Inr [\<lparr>t_name = ''query'', t_description = ''Run SQL'', t_inputSchema = ''{}''\<rparr>]"
    by (simp add: text_only_world_def scripted_world_def)
  have 3: "messages_create text_only_world 0
           (first_request [\<lparr>msg_role = ''user'', msg_content = Str ''hi''\<rparr>]
              (available_tools_of [\<lparr>t_name = ''query'', t_description = ''Run SQL'', t_inputSchema = ''{}''\<rparr>])) =
         Inr [text_block ''Hello'', text_block ''World'']"
    by (simp add: text_only_world_def scripted_world_def)
  have 4: "\<forall>b \<in> set [text_block ''Hello'', text_block ''World'']. \<not> is_tool_use b"
    by (simp add: is_tool_use_def text_block_def)
  have 5: "\<forall>b \<in> set [text_block ''Hello'', text_block ''World'']. sdk_block b"
    by (simp add: sdk_block_def text_block_def)
  from text_only_response [OF 1 2 3 4 5] show ?thesis
    by (simp add: text_block_def)
qed

subsection \<open>C7: the string returned\<close>

text \<open>
  As stated, C7 says that the returned string is the newline-joined text blocks of the
  whole exchange and nothing else. In the run below the returned string holds the
  progress line of the tool call, which is no text block of any response, and lacks the
  second text block of the follow-up response (\<open>Bye.\<close>).
\<close>

theorem answer_is_not_all_texts:
  "answer (process_query two_texts_world connected_client ''hi'') =
     Some (''Looking.'' @ NL @ ''[Calling tool query with args {q}]'' @ NL @ ''Done.'') \<and>
   join_nl (concat (map text_blocks
      (model_replies (trace (final_state (process_query two_texts_world connected_client ''hi'')))))) =
     ''Looking.'' @ NL @ ''Done.'' @ NL @ ''Bye.''"
  by (simp add: demo_defs calling_line_def answer_def)

text \<open>
  C7, as amended. The string \<open>process_query\<close> returns is the newline-joined list of,
  for each block of the first response in order: the text of a text block; for a
  tool-use block, the line \<open>[Calling tool NAME with args ARGS]\<close> followed by the text of
  the first block of the follow-up response to that block. Nothing else is in it: the
  other blocks of the follow-up responses are not.
\<close>

theorem answer_is_answer_lines:
  fixes w :: "('a, 'r, 's, 't) world"
  assumes "process_query w self q = Inr (ans, st)"
  shows "\<exists>r0 rs. model_replies (trace st) = r0 # rs \<and> ans = join_nl (answer_lines w r0 rs)"
  using process_query_returns [OF assms] by blast

theorem answer_is_answer_lines_witness:
  "answer (process_query two_texts_world connected_client ''hi'') =
     Some (join_nl (answer_lines two_texts_world
        [text_block ''Looking.'', tool_use_block ''query'' ''{q}'']
        [[text_block ''Done.'', text_block ''Bye.'']]))"
proof -
  have h: "process_query two_texts_world connected_client ''hi'' =
     Inr (''Looking.'' @ NL @ ''[Calling tool query with args {q}]'' @ NL @ ''Done.'',
          final_state (process_query two_texts_world connected_client ''hi''))"
    by (simp add: demo_defs calling_line_def)
  have r: "model_replies (trace (final_state (process_query two_texts_world connected_client ''hi''))) =
     [[text_block ''Looking.'', tool_use_block ''query'' ''{q}''],
      [text_block ''Done.'', text_block ''Bye.'']]"
    by (simp add: demo_defs)
  from answer_is_answer_lines [OF h] obtain r0 rs where
    1: "model_replies (trace (final_state (process_query two_texts_world connected_client ''hi''))) =
          r0 # rs"
    and 2: "''Looking.'' @ NL @ ''[Calling tool query with args {q}]'' @ NL @ ''Done.'' =
          join_nl (answer_lines two_texts_world r0 rs)"
    by blast
  from 1 r have "r0 = [text_block ''Looking.'', tool_use_block ''query'' ''{q}'']"
    and "rs = [[text_block ''Done.'', text_block ''Bye.'']]" by simp_all
  with 2 have "''Looking.'' @ NL @ ''[Calling tool query with args {q}]'' @ NL @ ''Done.'' =
      join_nl (answer_lines two_texts_world
        [text_block ''Looking.'', tool_use_block ''query'' ''{q}'']
        [[text_block ''Done.'', text_block ''Bye.'']])"
    by (simp only:)
  moreover have "answer (process_query two_texts_world connected_client ''hi'') =
      Some (''Looking.'' @ NL @ ''[Calling tool query with args {q}]'' @ NL @ ''Done.'')"
    by (simp add: demo_defs calling_line_def answer_def)
  ultimately show ?thesis by (simp only:)
qed

subsection \<open>C8: the tool result in the history\<close>



subsection \<open>C9: a configuration without a command\<close>

text \<open>
  C9. For every server configuration lacking a \<open>command\<close> entry, \<open>connect\<close> fails with
  a configuration error (the code raises \<open>ValueError\<close> with the message
  \<open>Server configuration must include a 'command'\<close>) and no session is opened: the
  client is left as it was, nothing was entered on its exit stack, and its session is
  the one it had.
\<close>

theorem connect_without_command:
  fixes w :: "('a, 'r, 's, 't) world"
  assumes "server_config ''command'' = None"
  shows "connect w self server_config =
           (Inl (ValueError (''Server configuration must include a 'command'' @ [CHR 0x27])), self)"
  using assms by (simp add: connect_def)

theorem connect_without_command_witness:
  "[''args'' \<mapsto> JArr [JStr ''server.py'']] ''command'' = None \<and>
   connect demo_world init_client [''args'' \<mapsto> JArr [JStr ''server.py'']] =
     (Inl (ValueError (''Server configuration must include a 'command'' @ [CHR 0x27])),
      \<lparr>session = None, transport = None, exit_stack = []\<rparr>)"
proof -
  have h: "[''args'' \<mapsto> JArr [JStr ''server.py'']] ''command'' = None" by simp
  from connect_without_command
         [where server_config = "[''args'' \<mapsto> JArr [JStr ''server.py'']]"
            and w = demo_world and self = init_client, OF h] h
  show ?thesis by (simp add: init_client_def)
qed

subsection \<open>C10: the first block of a follow-up response\<close>

text \<open>
  C10. After every tool invocation \<open>process_query\<close> reads the \<open>text\<close> of the first
  content block of the follow-up response without a guard: when a follow-up response
  (any response after the first) is empty, or its first block is a block of the library
  that is not a text block, the method raises instead of returning an answer,
  \<open>IndexError\<close> in the first case and \<open>AttributeError\<close> in the second.
\<close>

theorem followup_first_text_unguarded:
  fixes w :: "('a, 'r, 's, 't) world"
  assumes "r \<in> set (tl (model_replies (trace (final_state (process_query w self q)))))"
      and "r = [] \<or> (sdk_block (hd r) \<and> b_type (hd r) \<noteq> ''text'')"
  shows "raised (process_query w self q) = Some (if r = [] then IndexError else AttributeError)"
proof (cases rule: process_query_cases [where w = w and self = self and q = q])
  case no_session
  with assms show ?thesis by (simp add: final_state_def)
next
  case (list_tools_raises sess e)
  with assms show ?thesis by (simp add: final_state_def)
next
  case (model_raises sess tools e)
  with assms show ?thesis by (simp add: final_state_def)
next
  case (loop sess tools r0)
  let ?I = "\<lambda>st :: ('a, 'r) pq_state. model_replies (trace st) \<noteq> [] \<and>
     (\<forall>r \<in> set (tl (model_replies (trace st))). \<exists>t. first_block_text r = Inr t)"
  let ?F = "\<lambda>x :: error \<times> ('a, 'r) pq_state. \<forall>r \<in> set (tl (model_replies (trace (snd x)))).
                      \<forall>e. first_block_text r = Inl e \<longrightarrow> e = fst x"
  have entry: "?I (loop_entry q tools r0)" by simp
  have body: "\<And>st c. ?I st \<Longrightarrow> (case loop_body w sess st c of Inl x \<Rightarrow> ?F x | Inr st' \<Rightarrow> ?I st')"
    by (rule loop_body_first_text)
  have out: "case for_content w sess r0 (loop_entry q tools r0) of
      Inl x \<Rightarrow> ?F x | Inr st' \<Rightarrow> ?I st'"
    using for_content_outcome [where I = ?I and F = ?F and w = w and sess = sess
                                 and st = "loop_entry q tools r0" and cs = r0, OF body entry]
    by simp
  have bad: "first_block_text r = Inl (if r = [] then IndexError else AttributeError)"
    using assms(2) by (rule first_block_text_sdk)
  show ?thesis
  proof (cases "for_content w sess r0 (loop_entry q tools r0)")
    case (Inl x)
    with out assms(1) loop(5) bad have "(if r = [] then IndexError else AttributeError) = fst x"
      by (auto simp: reached_def)
    with Inl loop(4) show ?thesis by (simp add: raised_def)
  next
    case (Inr st')
    with out assms(1) loop(5) bad show ?thesis by (auto simp: reached_def)
  qed
qed

theorem followup_first_text_unguarded_witness:
  "raised (process_query tool_again_world connected_client ''hi'') = Some AttributeError"
proof -
  have m: "[tool_use_block ''query'' ''{q2}''] \<in>
      set (tl (model_replies (trace (final_state
        (process_query tool_again_world connected_client ''hi'')))))"
    by (simp add: demo_defs)
  have b: "[tool_use_block ''query'' ''{q2}''] = [] \<or>
      (sdk_block (hd [tool_use_block ''query'' ''{q2}'']) \<and>
       b_type (hd [tool_use_block ''query'' ''{q2}'']) \<noteq> ''text'')"
    by (simp add: sdk_block_def tool_use_block_def)
  from followup_first_text_unguarded [OF m b] show ?thesis by simp
qed

end
